theory Spec2Isabelle
  imports Main "HOL-Library.Word" "HOL-Library.Sublist" "HOL-Library.Char_ord"
    "HOL-Library.List_Lexorder"
begin

section \<open>Data model\<close>

text \<open>
  Go's \<^verbatim>\<open>int\<close> on the 64-bit platforms the bot is built for: a 64-bit two's-complement
  integer, so \<open>+\<close> wraps around.
\<close>

type_synonym go_int = "64 word"

text \<open>
  Modelled from the spec: the declaration of \<^verbatim>\<open>Subject\<close>, which is not among the
  files. A parsed subject has a name and a signed karma delta; the handlers read them
  as \<^verbatim>\<open>s.Name\<close> and \<^verbatim>\<open>s.Karma\<close>. It is the element type of the slice that
  \<^verbatim>\<open>ParseSubjects\<close> hands to \<^verbatim>\<open>marshalSubjects\<close>, and the handlers below take that
  slice as an argument.
\<close>

record Subject =
  Name :: string
  Karma :: go_int

section \<open>Merging the parsed subjects: \<^verbatim>\<open>marshalSubjects\<close>\<close>

text \<open>
  The name under which a subject is filed, the body of the comment
  \<^verbatim>\<open>/* associate @user with user */\<close>:
  \<^verbatim>\<open>if len(name) > 1 && name[0] == '@' { name = name[1:] }\<close>.
\<close>

definition resolveName :: "string \<Rightarrow> string" where
  "resolveName name =
     (if length name > 1 \<and> name ! 0 = CHR ''@'' then drop 1 name else name)"

text \<open>
  Reading a Go map at a key it does not hold gives the zero value.
\<close>

definition lookup0 :: "(string \<rightharpoonup> go_int) \<Rightarrow> string \<Rightarrow> go_int" where
  "lookup0 m k = (case m k of None \<Rightarrow> 0 | Some v \<Rightarrow> v)"

text \<open>One pass of the loop body of \<^verbatim>\<open>marshalSubjects\<close>.\<close>

definition marshalStep :: "(string \<rightharpoonup> go_int) \<Rightarrow> Subject \<Rightarrow> (string \<rightharpoonup> go_int)" where
  "marshalStep subMap s =
     (let name = resolveName (Name s);
          karma = lookup0 subMap name;
          karma' = karma + Karma s
      in subMap(name \<mapsto> karma'))"

fun marshalLoop :: "(string \<rightharpoonup> go_int) \<Rightarrow> Subject list \<Rightarrow> (string \<rightharpoonup> go_int)" where
  "marshalLoop subMap [] = subMap"
| "marshalLoop subMap (s # subs) = marshalLoop (marshalStep subMap s) subs"

definition marshalSubjects :: "Subject list \<Rightarrow> (string \<rightharpoonup> go_int)" where
  "marshalSubjects subs = marshalLoop Map.empty subs"

text \<open>
  The net delta of a name in a subject list: the sum of the deltas of the subjects that
  resolve to it.
\<close>

definition netDelta :: "Subject list \<Rightarrow> string \<Rightarrow> go_int" where
  "netDelta subs n = sum_list (map Karma (filter (\<lambda>s. resolveName (Name s) = n) subs))"

definition resolvedNames :: "Subject list \<Rightarrow> string set" where
  "resolvedNames subs = (\<lambda>s. resolveName (Name s)) ` set subs"

section \<open>Formatting\<close>

text \<open>
  \<^verbatim>\<open>%d\<close> of \<^verbatim>\<open>fmt.Sprintf\<close>: the decimal digits of the signed value, with a
  leading minus sign when it is negative.
\<close>

definition digitChar :: "nat \<Rightarrow> char" where
  "digitChar d = ''0123456789'' ! d"

fun natDigits :: "nat \<Rightarrow> string" where
  "natDigits n =
     (if n < 10 then [digitChar n] else natDigits (n div 10) @ [digitChar (n mod 10)])"

declare natDigits.simps [simp del]

definition formatInt :: "int \<Rightarrow> string" where
  "formatInt i = (if i < 0 then CHR ''-'' # natDigits (nat (- i)) else natDigits (nat i))"

text \<open>\<^verbatim>\<open>fmt.Sprintf("%s%s has %d karma.", sep, name, karma)\<close>\<close>

definition karmaLine :: "string \<Rightarrow> string \<Rightarrow> go_int \<Rightarrow> string" where
  "karmaLine sep name karma = sep @ name @ '' has '' @ formatInt (sint karma) @ '' karma.''"

section \<open>The ledger store\<close>

text \<open>
  Modelled from the spec: the declarations of \<^verbatim>\<open>Entity\<close> and \<^verbatim>\<open>Config\<close>, which are
  not among the files. A row of the karma table is \<^verbatim>\<open>Entity{GuildID, Name, Karma}\<close>,
  unique on (GuildID, Name). The fields carry a prefix where the name is taken by
  \<open>Subject\<close>.
\<close>

record Entity =
  GuildID :: string
  entName :: string
  entKarma :: go_int

text \<open>A row of the configuration table, \<^verbatim>\<open>Config{GuildID, NoAnnounce}\<close>, unique on GuildID.\<close>

record Config =
  cfgGuildID :: string
  NoAnnounce :: bool

text \<open>
  The database behind \<^verbatim>\<open>ctx.DB\<close>: the karma table as a map from its key
  (GuildID, Name) to the Karma column, the configuration table as a map from GuildID
  to the NoAnnounce column. The calls the handlers make on it are modelled by what the
  handlers rely on: a point lookup, and create, update and delete by key.
\<close>

record DB =
  entities :: "string \<times> string \<rightharpoonup> go_int"
  configs :: "string \<rightharpoonup> bool"

text \<open>
  \<^verbatim>\<open>var entity Entity; db.Where(&Entity{GuildID: g, Name: n}).First(&entity)\<close>: a read.
  When no row matches, \<open>entity\<close> keeps the zero value it was declared with.
\<close>

definition zeroEntity :: Entity where
  "zeroEntity = \<lparr>GuildID = [], entName = [], entKarma = 0\<rparr>"

definition dbFirst :: "DB \<Rightarrow> string \<Rightarrow> string \<Rightarrow> Entity" where
  "dbFirst db g n =
     (case entities db (g, n) of
        None \<Rightarrow> zeroEntity
      | Some k \<Rightarrow> \<lparr>GuildID = g, entName = n, entKarma = k\<rparr>)"

text \<open>
  \<^verbatim>\<open>db.Where(&Entity{GuildID: g, Name: n}).FirstOrCreate(&entity)\<close>: the matching row,
  or a row inserted with the key of the condition and a zero Karma.
\<close>

definition dbFirstOrCreate :: "DB \<Rightarrow> string \<Rightarrow> string \<Rightarrow> DB \<times> Entity" where
  "dbFirstOrCreate db g n =
     (case entities db (g, n) of
        None \<Rightarrow> (db\<lparr>entities := (entities db)((g, n) \<mapsto> 0)\<rparr>,
                 \<lparr>GuildID = g, entName = n, entKarma = 0\<rparr>)
      | Some k \<Rightarrow> (db, \<lparr>GuildID = g, entName = n, entKarma = k\<rparr>))"

text \<open>\<^verbatim>\<open>db.Save(entity)\<close> and \<^verbatim>\<open>db.Delete(entity)\<close>\<close>

definition dbSave :: "DB \<Rightarrow> Entity \<Rightarrow> DB" where
  "dbSave db e = db\<lparr>entities := (entities db)((GuildID e, entName e) \<mapsto> entKarma e)\<rparr>"

definition dbDelete :: "DB \<Rightarrow> Entity \<Rightarrow> DB" where
  "dbDelete db e = db\<lparr>entities := (entities db)((GuildID e, entName e) := None)\<rparr>"

text \<open>
  \<^verbatim>\<open>var cfg Config; db.Where(&Config{GuildID: g}).FirstOrCreate(&cfg)\<close>: a new row has
  the zero value of NoAnnounce, false.
\<close>

definition cfgFirstOrCreate :: "DB \<Rightarrow> string \<Rightarrow> DB \<times> Config" where
  "cfgFirstOrCreate db g =
     (case configs db g of
        None \<Rightarrow> (db\<lparr>configs := (configs db)(g \<mapsto> False)\<rparr>,
                 \<lparr>cfgGuildID = g, NoAnnounce = False\<rparr>)
      | Some b \<Rightarrow> (db, \<lparr>cfgGuildID = g, NoAnnounce = b\<rparr>))"

definition cfgSave :: "DB \<Rightarrow> Config \<Rightarrow> DB" where
  "cfgSave db c = db\<lparr>configs := (configs db)(cfgGuildID c \<mapsto> NoAnnounce c)\<rparr>"

section \<open>What a handler sends to the chat session\<close>

datatype emoji = ThumbsUp | QuestionMark | CheckMark

text \<open>
  The calls a handler makes on the session, in order: \<^verbatim>\<open>ChannelMessageSend\<close>
  (channel, text), \<^verbatim>\<open>ChannelMessageSendReply\<close> (channel, text) and
  \<^verbatim>\<open>MessageReactionAdd\<close> (channel, message, emoji).
\<close>

datatype call =
    ChannelMessageSend string string
  | ChannelMessageSendReply string string
  | MessageReactionAdd string string emoji

section \<open>The order of a \<^verbatim>\<open>range\<close> over a map\<close>

text \<open>
  Go leaves the order in which \<^verbatim>\<open>range\<close> visits the keys of a map unspecified; it
  visits each key once. A handler that ranges over a map takes the order the runtime
  chose as its first argument, and \<open>rangeOrder ks m\<close> says that \<open>ks\<close> is such an order
  for the map \<open>m\<close>.
\<close>

definition rangeOrder :: "string list \<Rightarrow> (string \<rightharpoonup> 'v) \<Rightarrow> bool" where
  "rangeOrder ks m \<longleftrightarrow> distinct ks \<and> set ks = dom m"

section \<open>The synchronous handlers\<close>

subsection \<open>\<^verbatim>\<open>ModKarma\<close>\<close>

text \<open>
  The body of the loop \<^verbatim>\<open>for subject, netKarma := range modifiers\<close>. The loop state is
  the database, the reply built so far and the separator \<^verbatim>\<open>sep\<close>.
\<close>

definition modKarmaStep ::
  "string \<Rightarrow> (string \<rightharpoonup> go_int) \<Rightarrow> DB \<times> string \<times> string \<Rightarrow> string \<Rightarrow> DB \<times> string \<times> string"
where
  "modKarmaStep guildID modifiers st subject =
     (case st of (db, reply, sep) \<Rightarrow>
        let netKarma = lookup0 modifiers subject in
        if netKarma = 0 then (db, reply, sep)
        else
          let (db1, entity) = dbFirstOrCreate db guildID subject;
              entity' = entity\<lparr>entKarma := entKarma entity + netKarma\<rparr>;
              reply' = reply @ karmaLine sep (entName entity') (entKarma entity');
              db2 = (if entKarma entity' = 0 then dbDelete db1 entity' else dbSave db1 entity')
          in (db2, reply', '' ''))"

fun modKarmaLoop ::
  "string \<Rightarrow> (string \<rightharpoonup> go_int) \<Rightarrow> DB \<times> string \<times> string \<Rightarrow> string list \<Rightarrow> DB \<times> string \<times> string"
where
  "modKarmaLoop guildID modifiers st [] = st"
| "modKarmaLoop guildID modifiers st (subject # ks) =
     modKarmaLoop guildID modifiers (modKarmaStep guildID modifiers st subject) ks"

text \<open>
  \<^verbatim>\<open>ModKarma\<close>. \<open>ks\<close> is the order of the range over \<^verbatim>\<open>modifiers\<close>, \<open>subs\<close> what
  \<^verbatim>\<open>ParseSubjects(message)\<close> returned, \<open>channelID\<close> the channel of the message. The
  result is the database afterwards and the calls made on the session.
\<close>

definition ModKarma :: "string list \<Rightarrow> DB \<Rightarrow> string \<Rightarrow> string \<Rightarrow> Subject list \<Rightarrow> DB \<times> call list" where
  "ModKarma ks db guildID channelID subs =
     (let modifiers = marshalSubjects subs;
          (db1, reply, sep) = modKarmaLoop guildID modifiers (db, [], []) ks
      in if length reply = 0 then (db1, [])
         else
           let (db2, cfg) = cfgFirstOrCreate db1 guildID
           in if \<not> NoAnnounce cfg then (db2, [ChannelMessageSend channelID reply])
              else (db2, []))"

subsection \<open>\<^verbatim>\<open>CheckKarma\<close>\<close>

text \<open>The body of the loop \<^verbatim>\<open>for subject, _ := range subjects\<close>.\<close>

definition checkKarmaStep :: "string \<Rightarrow> DB \<times> string \<times> string \<Rightarrow> string \<Rightarrow> DB \<times> string \<times> string" where
  "checkKarmaStep guildID st subject =
     (case st of (db, reply, sep) \<Rightarrow>
        let entity = dbFirst db guildID subject
        in (db, reply @ karmaLine sep subject (entKarma entity), '' ''))"

fun checkKarmaLoop :: "string \<Rightarrow> DB \<times> string \<times> string \<Rightarrow> string list \<Rightarrow> DB \<times> string \<times> string" where
  "checkKarmaLoop guildID st [] = st"
| "checkKarmaLoop guildID st (subject # ks) =
     checkKarmaLoop guildID (checkKarmaStep guildID st subject) ks"

text \<open>
  \<^verbatim>\<open>CheckKarma\<close>. \<open>ks\<close> is the order of the range over \<^verbatim>\<open>subjects\<close>, \<open>subs\<close> what
  \<^verbatim>\<open>ParseSubjects\<close> returned for the text after the header.
\<close>

definition CheckKarma :: "string list \<Rightarrow> DB \<Rightarrow> string \<Rightarrow> string \<Rightarrow> Subject list \<Rightarrow> DB \<times> call list" where
  "CheckKarma ks db guildID channelID subs =
     (let subjects = marshalSubjects subs;
          (db1, reply, sep) = checkKarmaLoop guildID (db, [], []) ks
      in (db1, [ChannelMessageSend channelID reply]))"

subsection \<open>\<^verbatim>\<open>SetAnnounce\<close>\<close>

text \<open>A word between double quotes, as the literals of the source have them.\<close>

definition quoted :: "string \<Rightarrow> string" where
  "quoted s = CHR 0x22 # s @ [CHR 0x22]"

text \<open>
  \<open>message\<close> is the text after the header; \<open>messageID\<close> the message reacted to.
  \<^verbatim>\<open>strings.HasPrefix(s, p)\<close> is \<open>prefix p s\<close>.
\<close>

definition SetAnnounce :: "DB \<Rightarrow> string \<Rightarrow> string \<Rightarrow> string \<Rightarrow> string \<Rightarrow> DB \<times> call list" where
  "SetAnnounce db guildID channelID messageID message =
     (if prefix ''on'' message \<or> prefix ''yes'' message then
        (let on = True;
             (db1, cfg) = cfgFirstOrCreate db guildID;
             cfg' = cfg\<lparr>NoAnnounce := \<not> on\<rparr>
         in (cfgSave db1 cfg', [MessageReactionAdd channelID messageID ThumbsUp]))
      else if prefix ''off'' message \<or> prefix ''no'' message then
        (let on = False;
             (db1, cfg) = cfgFirstOrCreate db guildID;
             cfg' = cfg\<lparr>NoAnnounce := \<not> on\<rparr>
         in (cfgSave db1 cfg', [MessageReactionAdd channelID messageID ThumbsUp]))
      else
        (db, [ChannelMessageSendReply channelID
                (''Announce settings are: '' @ quoted ''yes'' @ '', '' @ quoted ''no'' @ '', ''
                   @ quoted ''on'' @ '', '' @ quoted ''off'')]))"

subsection \<open>\<^verbatim>\<open>board\<close>: the limit of \<^verbatim>\<open>Top\<close> and \<^verbatim>\<open>Bot\<close>\<close>

text \<open>
  Go's strings are sequences of bytes, read as UTF-8 by the functions of package
  \<^verbatim>\<open>strings\<close>. \<^verbatim>\<open>utf8.DecodeRuneInString\<close>: the rune that the text begins with and its
  width in bytes. A byte that begins no valid encoding is the rune \<^verbatim>\<open>RuneError\<close> of
  width 1, the empty text is \<^verbatim>\<open>RuneError\<close> of width 0. The first byte fixes the width
  and the range of the second byte, as the tables \<^verbatim>\<open>first\<close> and \<^verbatim>\<open>acceptRanges\<close> do.
\<close>

definition RuneError :: nat where
  "RuneError = 0xFFFD"

definition decodeRune :: "string \<Rightarrow> nat \<times> nat" where
  "decodeRune s =
     (if s = [] then (RuneError, 0)
      else
        let p0 = (of_char (s ! 0) :: nat) in
        if p0 < 0x80 then (p0, 1)
        else if p0 < 0xC2 \<or> 0xF4 < p0 then (RuneError, 1)
        else
          let sz = (if p0 < 0xE0 then 2 else if p0 < 0xF0 then 3 else 4 :: nat);
              lo = (if p0 = 0xE0 then 0xA0 else if p0 = 0xF0 then 0x90 else 0x80 :: nat);
              hi = (if p0 = 0xED then 0x9F else if p0 = 0xF4 then 0x8F else 0xBF :: nat)
          in if length s < sz then (RuneError, 1)
             else
               let b1 = (of_char (s ! 1) :: nat) in
               if b1 < lo \<or> hi < b1 then (RuneError, 1)
               else if sz \<le> 2 then ((p0 mod 0x20) * 0x40 + b1 mod 0x40, 2)
               else
                 let b2 = (of_char (s ! 2) :: nat) in
                 if b2 < 0x80 \<or> 0xBF < b2 then (RuneError, 1)
                 else if sz \<le> 3 then
                   ((p0 mod 0x10) * 0x1000 + (b1 mod 0x40) * 0x40 + b2 mod 0x40, 3)
                 else
                   let b3 = (of_char (s ! 3) :: nat) in
                   if b3 < 0x80 \<or> 0xBF < b3 then (RuneError, 1)
                   else ((p0 mod 0x08) * 0x40000 + (b1 mod 0x40) * 0x1000
                           + (b2 mod 0x40) * 0x40 + b3 mod 0x40, 4))"

text \<open>
  \<^verbatim>\<open>unicode.IsSpace\<close>: in Latin-1 the characters tab, line feed, vertical tab, form
  feed, carriage return, space, U+0085 and U+00A0; beyond it the characters of the
  property White_Space.
\<close>

definition isSpace :: "nat \<Rightarrow> bool" where
  "isSpace r \<longleftrightarrow>
     (if r \<le> 0xFF then r \<in> set [0x09, 0x0A, 0x0B, 0x0C, 0x0D, 0x20, 0x85, 0xA0]
      else r = 0x1680 \<or> (0x2000 \<le> r \<and> r \<le> 0x200A) \<or> r = 0x2028 \<or> r = 0x2029 \<or>
           r = 0x202F \<or> r = 0x205F \<or> r = 0x3000)"

text \<open>
  \<^verbatim>\<open>strings.Fields\<close>: the maximal runs of runes that are not white space, as
  \<^verbatim>\<open>FieldsFunc(s, unicode.IsSpace)\<close> computes them (the loop for texts that are all
  ASCII gives the same fields). \<open>cur\<close> is the field being read, empty when none is.
\<close>

function fieldsFrom :: "string \<Rightarrow> string \<Rightarrow> string list" where
  "fieldsFrom cur s =
     (if s = [] then (if cur = [] then [] else [cur])
      else if isSpace (fst (decodeRune s)) then
        (if cur = [] then fieldsFrom [] (drop (snd (decodeRune s)) s)
         else cur # fieldsFrom [] (drop (snd (decodeRune s)) s))
      else fieldsFrom (cur @ take (snd (decodeRune s)) s) (drop (snd (decodeRune s)) s))"
  by pat_completeness auto
termination
proof (relation "measure (\<lambda>(cur, s). length s)")
  have w: "\<And>s. s \<noteq> [] \<Longrightarrow> 0 < snd (decodeRune s)"
    by (simp add: decodeRune_def Let_def)
  show "wf (measure (\<lambda>(cur, s). length s))" by simp
  show "\<And>cur s. s \<noteq> [] \<Longrightarrow> isSpace (fst (decodeRune s)) \<Longrightarrow> cur = [] \<Longrightarrow>
          (([], drop (snd (decodeRune s)) s), cur, s) \<in> measure (\<lambda>(cur, s). length s)"
    using w by simp
  show "\<And>cur s. s \<noteq> [] \<Longrightarrow> isSpace (fst (decodeRune s)) \<Longrightarrow> cur \<noteq> [] \<Longrightarrow>
          (([], drop (snd (decodeRune s)) s), cur, s) \<in> measure (\<lambda>(cur, s). length s)"
    using w by simp
  show "\<And>cur s. s \<noteq> [] \<Longrightarrow> \<not> isSpace (fst (decodeRune s)) \<Longrightarrow>
          ((cur @ take (snd (decodeRune s)) s, drop (snd (decodeRune s)) s), cur, s)
            \<in> measure (\<lambda>(cur, s). length s)"
    using w by simp
qed

declare fieldsFrom.simps [simp del]

definition Fields :: "string \<Rightarrow> string list" where
  "Fields s = fieldsFrom [] s"

text \<open>
  \<^verbatim>\<open>strconv.Atoi\<close>: an optional sign, then one or more decimal digits, and a value
  that fits Go's \<^verbatim>\<open>int\<close>; a syntax error or a range error otherwise.
\<close>

datatype NumError = ErrSyntax | ErrRange

definition isDigit :: "char \<Rightarrow> bool" where
  "isDigit c \<longleftrightarrow> 48 \<le> (of_char c :: nat) \<and> (of_char c :: nat) \<le> 57"

fun digitsValue :: "nat \<Rightarrow> string \<Rightarrow> nat" where
  "digitsValue n [] = n"
| "digitsValue n (c # cs) = digitsValue (n * 10 + (of_char c - 48)) cs"

definition Atoi :: "string \<Rightarrow> NumError + go_int" where
  "Atoi s =
     (let signed = (s \<noteq> [] \<and> (hd s = CHR ''-'' \<or> hd s = CHR ''+''));
          neg = (s \<noteq> [] \<and> hd s = CHR ''-'');
          ds = (if signed then tl s else s)
      in if ds = [] \<or> \<not> list_all isDigit ds then Inl ErrSyntax
         else
           let v = (if neg then - int (digitsValue 0 ds) else int (digitsValue 0 ds))
           in if v < - (2 ^ 63) \<or> 2 ^ 63 - 1 < v then Inl ErrRange
              else Inr (word_of_int v))"

text \<open>
  The limit \<^verbatim>\<open>board\<close> passes to the query. \<open>message\<close> is the text after the header.
\<close>

definition boardLimit :: "string \<Rightarrow> go_int" where
  "boardLimit message =
     (let limit = 10;
          parts = Fields message
      in if length parts > 0 then
           (case Atoi (parts ! 0) of
              Inr limitArg \<Rightarrow> if 0 < sint limitArg then limitArg else limit
            | Inl err \<Rightarrow> limit)
         else limit)"

section \<open>The event protocol\<close>

text \<open>
  Modelled from the spec: the type declarations of package \<^verbatim>\<open>event\<close>, which are not
  among the files. The payloads have the fields the publisher fills and the consumer
  reads; a field carries a prefix where two payloads share its name. \<open>Who\<close> of a karma
  response is a map from name to karma, \<open>Board\<close> a list of (name, karma) entries.
\<close>

record ReplyTo =
  replyChannelID :: string

record ReactTo =
  reactChannelID :: string
  reactMessageID :: string

record RequestChangeAnnounce =
  rcaReactTo :: ReactTo
  rcaServerID :: string
  rcaNoAnnounce :: bool

record RequestBumpKarma =
  rbkReplyTo :: ReplyTo
  rbkServerID :: string
  rbkWho :: "string \<rightharpoonup> go_int"

record RequestCheckKarma =
  rckReplyTo :: ReplyTo
  rckServerID :: string
  rckWho :: "string list"

record RequestCheckLeaderboard =
  rclReplyTo :: ReplyTo
  rclServerID :: string
  rclLimit :: go_int

record RequestCheckLoserboard =
  rcoReplyTo :: ReplyTo
  rcoServerID :: string
  rcoLimit :: go_int

record CheckedKarma =
  ckReplyTo :: ReplyTo
  ckWho :: "string \<rightharpoonup> go_int"

record CheckedLeaderboard =
  clReplyTo :: ReplyTo
  clBoard :: "(string \<times> go_int) list"

record CheckedLoserboard =
  coReplyTo :: ReplyTo
  coBoard :: "(string \<times> go_int) list"

record ChangedAnnounce =
  caReactTo :: ReactTo

record ChangedKarma =
  chReplyTo :: ReplyTo
  chAnnounce :: bool
  chWho :: "string \<rightharpoonup> go_int"

text \<open>
  The envelope \<^verbatim>\<open>event.Event\<close>: one optional field (a pointer, nil when absent) per
  request and response.
\<close>

record Event =
  evRequestChangeAnnounce :: "RequestChangeAnnounce option"
  evRequestBumpKarma :: "RequestBumpKarma option"
  evRequestCheckKarma :: "RequestCheckKarma option"
  evRequestCheckLeaderboard :: "RequestCheckLeaderboard option"
  evRequestCheckLoserboard :: "RequestCheckLoserboard option"
  evCheckedKarma :: "CheckedKarma option"
  evCheckedLeaderboard :: "CheckedLeaderboard option"
  evCheckedLoserboard :: "CheckedLoserboard option"
  evChangedAnnounce :: "ChangedAnnounce option"
  evChangedKarma :: "ChangedKarma option"

text \<open>The zero value \<^verbatim>\<open>event.Event{}\<close>: every field nil.\<close>

definition emptyEvent :: Event where
  "emptyEvent =
     \<lparr>evRequestChangeAnnounce = None, evRequestBumpKarma = None, evRequestCheckKarma = None,
      evRequestCheckLeaderboard = None, evRequestCheckLoserboard = None,
      evCheckedKarma = None, evCheckedLeaderboard = None, evCheckedLoserboard = None,
      evChangedAnnounce = None, evChangedKarma = None\<rparr>"

text \<open>How many fields of an envelope are populated.\<close>

definition populated :: "Event \<Rightarrow> nat" where
  "populated e =
     (if evRequestChangeAnnounce e = None then 0 else 1)
   + (if evRequestBumpKarma e = None then 0 else 1)
   + (if evRequestCheckKarma e = None then 0 else 1)
   + (if evRequestCheckLeaderboard e = None then 0 else 1)
   + (if evRequestCheckLoserboard e = None then 0 else 1)
   + (if evCheckedKarma e = None then 0 else 1)
   + (if evCheckedLeaderboard e = None then 0 else 1)
   + (if evCheckedLoserboard e = None then 0 else 1)
   + (if evChangedAnnounce e = None then 0 else 1)
   + (if evChangedKarma e = None then 0 else 1)"

section \<open>The consumer\<close>

text \<open>
  \<^verbatim>\<open>templateLevels\<close>: text/template ranges over a map in the order of its sorted keys.
\<close>

definition templateLevels :: "(string \<rightharpoonup> go_int) \<Rightarrow> string" where
  "templateLevels who =
     concat (map (\<lambda>name. name @ '' has '' @ formatInt (sint (lookup0 who name)) @ '' karma. '')
               (sorted_list_of_set (dom who)))"

text \<open>\<^verbatim>\<open>templateBoard\<close>: one line per entry of the slice.\<close>

definition templateBoard :: "(string \<times> go_int) list \<Rightarrow> string" where
  "templateBoard board =
     concat (map (\<lambda>entry. ''* '' @ fst entry @ '' has '' @ formatInt (sint (snd entry))
                            @ '' karma.'' @ [CHR 0x0A])
               board)"

text \<open>
  What the consumer does with one decoded event: the calls it makes on the session,
  or the event discarded by the \<^verbatim>\<open>default\<close> case.
\<close>

datatype handled = Handled "call list" | Discarded

text \<open>
  The body of the consumer's loop for an event \<open>actual\<close> that decoded: the
  \<^verbatim>\<open>switch\<close> takes the first case whose field is not nil.
\<close>

definition consumeEvent :: "Event \<Rightarrow> handled" where
  "consumeEvent actual =
     (case evCheckedKarma actual of
        Some rsp \<Rightarrow>
          Handled [ChannelMessageSend (replyChannelID (ckReplyTo rsp))
                     (templateLevels (ckWho rsp))]
      | None \<Rightarrow>
     (case evCheckedLeaderboard actual of
        Some rsp \<Rightarrow>
          Handled [ChannelMessageSend (replyChannelID (clReplyTo rsp)) (templateBoard (clBoard rsp))]
      | None \<Rightarrow>
     (case evCheckedLoserboard actual of
        Some rsp \<Rightarrow>
          Handled [ChannelMessageSend (replyChannelID (coReplyTo rsp)) (templateBoard (coBoard rsp))]
      | None \<Rightarrow>
     (case evChangedAnnounce actual of
        Some rsp \<Rightarrow>
          Handled [MessageReactionAdd (reactChannelID (caReactTo rsp))
                     (reactMessageID (caReactTo rsp)) CheckMark]
      | None \<Rightarrow>
     (case evChangedKarma actual of
        Some rsp \<Rightarrow>
          if \<not> chAnnounce rsp then Handled []
          else Handled [ChannelMessageSend (replyChannelID (chReplyTo rsp))
                          (templateLevels (chWho rsp))]
      | None \<Rightarrow> Discarded)))))"

section \<open>The publisher\<close>

text \<open>
  Modelled from the spec: the handler types and the errors of package \<^verbatim>\<open>popple\<close>, whose
  declarations are not among the files. The kinds of handler the router returns, as the
  type switch of the publisher names them, and the errors of the argument parsers.
\<close>

datatype Kind =
  AnnounceHandler | BumpKarmaHandler | KarmaHandler | LeaderboardHandler | LoserboardHandler

datatype ArgError = ErrMissingArgument | ErrInvalidArgument

text \<open>
  The functions of package \<^verbatim>\<open>popple\<close> that the publisher calls; their source is not
  among the files, and the publisher takes them as a parameter. \<open>route prefix text\<close> is
  \<^verbatim>\<open>popple.NewMux(prefix).Route(text)\<close>; a parser returns its value and its error (nil
  is \<open>None\<close>), as the Go functions do.
\<close>

record Popple =
  route :: "string \<Rightarrow> string \<Rightarrow> Kind \<times> string"
  parseAnnounceArgs :: "string \<Rightarrow> bool \<times> ArgError option"
  parseBumpKarmaArgs :: "string \<Rightarrow> (string \<rightharpoonup> go_int) \<times> ArgError option"
  parseKarmaArgs :: "string \<Rightarrow> string list \<times> ArgError option"
  parseLeaderboardArgs :: "string \<Rightarrow> go_int \<times> ArgError option"
  parseLoserboardArgs :: "string \<Rightarrow> go_int \<times> ArgError option"

text \<open>
  The message of a \<^verbatim>\<open>MessageCreate\<close> event: \<^verbatim>\<open>m.ID\<close>, \<^verbatim>\<open>m.ChannelID\<close>,
  \<^verbatim>\<open>m.GuildID\<close>, \<^verbatim>\<open>m.Author.ID\<close> and \<^verbatim>\<open>m.ContentWithMentionsReplaced()\<close>.
\<close>

record MessageCreate =
  mID :: string
  mChannelID :: string
  mGuildID :: string
  mAuthorID :: string
  mContent :: string

text \<open>
  What the handler does, in order: a call on the session, or an event published to the
  request queue.
\<close>

datatype effect = Session call | Publish Event

text \<open>
  \<^verbatim>\<open>utf8.DecodeLastRuneInString\<close>: the rune that the text ends with and its width. It
  looks back over at most four bytes for a byte that can begin a rune
  (\<^verbatim>\<open>utf8.RuneStart\<close>), decodes from there, and gives \<^verbatim>\<open>RuneError\<close> of width 1 unless
  that rune ends where the text ends.
\<close>

definition runeStart :: "char \<Rightarrow> bool" where
  "runeStart b \<longleftrightarrow> \<not> (0x80 \<le> (of_char b :: nat) \<and> (of_char b :: nat) \<le> 0xBF)"

function scanBack :: "string \<Rightarrow> int \<Rightarrow> int \<Rightarrow> int" where
  "scanBack s lim start =
     (if lim \<le> start then
        (if runeStart (s ! nat start) then start else scanBack s lim (start - 1))
      else start)"
  by pat_completeness auto
termination
  by (relation "measure (\<lambda>(s, lim, start). nat (start - lim + 1))") auto

declare scanBack.simps [simp del]

definition decodeLastRune :: "string \<Rightarrow> nat \<times> nat" where
  "decodeLastRune s =
     (let end = int (length s) in
      if end = 0 then (RuneError, 0)
      else
        let start = end - 1;
            r = (of_char (s ! nat start) :: nat)
        in if r < 0x80 then (r, 1)
           else
             let lim = (if end - 4 < 0 then 0 else end - 4);
                 start1 = scanBack s lim (start - 1);
                 start2 = (if start1 < 0 then 0 else start1);
                 rs = decodeRune (drop (nat start2) s)
             in if start2 + int (snd rs) \<noteq> end then (RuneError, 1) else rs)"

text \<open>
  \<^verbatim>\<open>strings.TrimLeftFunc(s, unicode.IsSpace)\<close>: the text from its first rune that is not
  white space.
\<close>

function trimLeft :: "string \<Rightarrow> string" where
  "trimLeft s =
     (if s = [] then []
      else if isSpace (fst (decodeRune s)) then trimLeft (drop (snd (decodeRune s)) s)
      else s)"
  by pat_completeness auto
termination
proof (relation "measure length")
  show "wf (measure length)" by simp
  show "\<And>s. s \<noteq> [] \<Longrightarrow> isSpace (fst (decodeRune s)) \<Longrightarrow>
          (drop (snd (decodeRune s)) s, s) \<in> measure length"
    by (simp add: decodeRune_def Let_def)
qed

declare trimLeft.simps [simp del]

text \<open>
  \<^verbatim>\<open>strings.TrimRightFunc(s, unicode.IsSpace)\<close>: \<open>lastIndexNonSpace s (length s)\<close> is
  the index of the last rune that is not white space, decoding backwards, or -1; the
  text is cut after that rune.
\<close>

function lastIndexNonSpace :: "string \<Rightarrow> nat \<Rightarrow> int" where
  "lastIndexNonSpace s i =
     (if 0 < i then
        (if \<not> isSpace (fst (decodeLastRune (take i s)))
         then int (i - snd (decodeLastRune (take i s)))
         else lastIndexNonSpace s (i - snd (decodeLastRune (take i s))))
      else - 1)"
  by pat_completeness auto
termination
proof (relation "measure (\<lambda>(s, i). i)")
  have e: "\<not> isSpace RuneError"
    by (simp add: isSpace_def RuneError_def)
  have p: "\<And>t. t \<noteq> [] \<Longrightarrow> 0 < snd (decodeRune t)"
    by (simp add: decodeRune_def Let_def)
  have n: "fst (decodeRune []) = RuneError"
    by (simp add: decodeRune_def)
  have d: "\<And>t. snd (decodeRune t) = 0 \<Longrightarrow> fst (decodeRune t) = RuneError"
  proof -
    fix t assume z: "snd (decodeRune t) = 0"
    have "t = []" using p [of t] z by (cases "t = []") simp_all
    with n show "fst (decodeRune t) = RuneError" by simp
  qed
  have w: "\<And>t. isSpace (fst (decodeLastRune t)) \<Longrightarrow> 0 < snd (decodeLastRune t)"
  proof (rule ccontr)
    fix t assume sp: "isSpace (fst (decodeLastRune t))" and "\<not> 0 < snd (decodeLastRune t)"
    then have z: "snd (decodeLastRune t) = 0" by simp
    then have "fst (decodeLastRune t) = RuneError"
      using d by (auto simp: decodeLastRune_def Let_def split: if_splits)
    with sp e show False by simp
  qed
  show "wf (measure (\<lambda>(s, i). i))" by simp
  show "\<And>s i. 0 < i \<Longrightarrow> \<not> \<not> isSpace (fst (decodeLastRune (take i s))) \<Longrightarrow>
          ((s, i - snd (decodeLastRune (take i s))), s, i) \<in> measure (\<lambda>(s, i). i)"
    using w by simp
qed

declare lastIndexNonSpace.simps [simp del]

definition trimRight :: "string \<Rightarrow> string" where
  "trimRight s =
     (let i = lastIndexNonSpace s (length s) in
      if 0 \<le> i \<and> 0x80 \<le> (of_char (s ! nat i) :: nat)
      then take (nat i + snd (decodeRune (drop (nat i) s))) s
      else take (nat (i + 1)) s)"

text \<open>
  \<^verbatim>\<open>strings.TrimSpace\<close>: the leading and the trailing white space removed. Its loops
  over leading and trailing ASCII bytes remove what the two functions above remove.
\<close>

definition TrimSpace :: "string \<Rightarrow> string" where
  "TrimSpace s = trimRight (trimLeft s)"

definition validAnnounceText :: string where
  "validAnnounceText =
     ''Valid announce settings are: '' @ quoted ''on'' @ '', '' @ quoted ''off'' @ '', ''
       @ quoted ''yes'' @ '', '' @ quoted ''no''"

definition badLimitText :: string where
  "badLimitText = ''The number of entries to list must be a positive non-zero integer''"

text \<open>\<^verbatim>\<open>case popple.AnnounceHandler\<close>\<close>

definition onAnnounce :: "Popple \<Rightarrow> MessageCreate \<Rightarrow> string \<Rightarrow> effect list" where
  "onAnnounce P m body =
     (let (on, err) = parseAnnounceArgs P body
      in if err = Some ErrMissingArgument \<or> err = Some ErrInvalidArgument then
           [Session (MessageReactionAdd (mChannelID m) (mID m) QuestionMark),
            Session (ChannelMessageSend (mChannelID m) validAnnounceText)]
         else
           [Publish (emptyEvent\<lparr>evRequestChangeAnnounce := Some
              \<lparr>rcaReactTo = \<lparr>reactChannelID = mChannelID m, reactMessageID = mID m\<rparr>,
               rcaServerID = mGuildID m,
               rcaNoAnnounce = (\<not> on)\<rparr>\<rparr>)])"

text \<open>\<^verbatim>\<open>case popple.BumpKarmaHandler\<close>\<close>

definition onBumpKarma :: "Popple \<Rightarrow> MessageCreate \<Rightarrow> string \<Rightarrow> effect list" where
  "onBumpKarma P m body =
     (let (increments, err) = parseBumpKarmaArgs P body
      in [Publish (emptyEvent\<lparr>evRequestBumpKarma := Some
            \<lparr>rbkReplyTo = \<lparr>replyChannelID = mChannelID m\<rparr>,
             rbkServerID = mGuildID m,
             rbkWho = increments\<rparr>\<rparr>)])"

text \<open>
  \<^verbatim>\<open>case popple.KarmaHandler\<close>. \<open>reactFails\<close> says whether \<^verbatim>\<open>MessageReactionAdd\<close>
  returns an error; the \<^verbatim>\<open>return\<close> of this case stands under that test only.
\<close>

definition onKarma :: "Popple \<Rightarrow> bool \<Rightarrow> MessageCreate \<Rightarrow> string \<Rightarrow> effect list" where
  "onKarma P reactFails m body =
     (let (who, err) = parseKarmaArgs P body;
          request = Publish (emptyEvent\<lparr>evRequestCheckKarma := Some
            \<lparr>rckReplyTo = \<lparr>replyChannelID = mChannelID m\<rparr>,
             rckServerID = mGuildID m,
             rckWho = who\<rparr>\<rparr>)
      in if err \<noteq> None then
           (if reactFails then [Session (MessageReactionAdd (mChannelID m) (mID m) QuestionMark)]
            else [Session (MessageReactionAdd (mChannelID m) (mID m) QuestionMark), request])
         else [request])"

text \<open>\<^verbatim>\<open>case popple.LeaderboardHandler\<close>\<close>

definition onLeaderboard :: "Popple \<Rightarrow> MessageCreate \<Rightarrow> string \<Rightarrow> effect list" where
  "onLeaderboard P m body =
     (let (limit, err) = parseLeaderboardArgs P body
      in if err = Some ErrInvalidArgument then
           [Session (ChannelMessageSend (mChannelID m) badLimitText)]
         else
           [Publish (emptyEvent\<lparr>evRequestCheckLeaderboard := Some
              \<lparr>rclReplyTo = \<lparr>replyChannelID = mChannelID m\<rparr>,
               rclServerID = mGuildID m,
               rclLimit = limit\<rparr>\<rparr>)])"

text \<open>\<^verbatim>\<open>case popple.LoserboardHandler\<close>\<close>

definition onLoserboard :: "Popple \<Rightarrow> MessageCreate \<Rightarrow> string \<Rightarrow> effect list" where
  "onLoserboard P m body =
     (let (limit, err) = parseLoserboardArgs P body
      in if err = Some ErrInvalidArgument then
           [Session (ChannelMessageSend (mChannelID m) badLimitText)]
         else
           [Publish (emptyEvent\<lparr>evRequestCheckLoserboard := Some
              \<lparr>rcoReplyTo = \<lparr>replyChannelID = mChannelID m\<rparr>,
               rcoServerID = mGuildID m,
               rcoLimit = limit\<rparr>\<rparr>)])"

text \<open>
  The handler the publisher registers for \<^verbatim>\<open>MessageCreate\<close>. \<open>selfID\<close> and \<open>username\<close>
  are \<^verbatim>\<open>s.State.User.ID\<close> and \<^verbatim>\<open>session.State.User.Username\<close>.
\<close>

definition messageCreate :: "Popple \<Rightarrow> string \<Rightarrow> string \<Rightarrow> bool \<Rightarrow> MessageCreate \<Rightarrow> effect list" where
  "messageCreate P selfID username reactFails m =
     (if selfID = mAuthorID m then []
      else if length (mGuildID m) = 0 then []
      else
        let message = TrimSpace (mContent m);
            (action, body) = route P (CHR ''@'' # username) message
        in case action of
             AnnounceHandler \<Rightarrow> onAnnounce P m body
           | BumpKarmaHandler \<Rightarrow> onBumpKarma P m body
           | KarmaHandler \<Rightarrow> onKarma P reactFails m body
           | LeaderboardHandler \<Rightarrow> onLeaderboard P m body
           | LoserboardHandler \<Rightarrow> onLoserboard P m body)"

section \<open>Package \<^verbatim>\<open>popple\<close>: the router and the board parsers\<close>

text \<open>
  Modelled from the spec: \<^verbatim>\<open>Mux.Route\<close> of package \<^verbatim>\<open>popple\<close>, whose source is not among
  the files; only its test and its caller are. A text that does not begin with the
  prefix is the body of a BumpKarma. Otherwise the prefix is removed and the rest is
  inspected for a leading keyword, with a single space or none between the prefix and
  the keyword; the body of a keyword route is what trails the keyword, and the body of
  the default route is the text after the prefix, verbatim.
\<close>

definition Route :: "string \<Rightarrow> string \<Rightarrow> Kind \<times> string" where
  "Route pfx text =
     (if \<not> prefix pfx text then (BumpKarmaHandler, text)
      else
        let rest = drop (length pfx) text;
            cmd = (if prefix '' '' rest then drop 1 rest else rest)
        in if prefix ''announce'' cmd then (AnnounceHandler, drop (length ''announce'') cmd)
           else if prefix ''karma'' cmd then (KarmaHandler, drop (length ''karma'') cmd)
           else if prefix ''top'' cmd then (LeaderboardHandler, drop (length ''top'') cmd)
           else if prefix ''bot'' cmd then (LoserboardHandler, drop (length ''bot'') cmd)
           else (BumpKarmaHandler, rest))"

text \<open>
  Modelled from the spec: \<^verbatim>\<open>ParseLeaderboardArgs\<close> and \<^verbatim>\<open>ParseLoserboardArgs\<close> of package
  \<^verbatim>\<open>popple\<close>, whose source is not among the files. The optional first
  whitespace-delimited token is parsed as an integer; absent, the limit is the default
  10; present but not a positive non-zero integer, the parse fails with the
  invalid-argument error.
\<close>

definition ParseLeaderboardArgs :: "string \<Rightarrow> go_int \<times> ArgError option" where
  "ParseLeaderboardArgs body =
     (case Fields body of
        [] \<Rightarrow> (10, None)
      | tok # _ \<Rightarrow>
          (case Atoi tok of
             Inr n \<Rightarrow> if 0 < sint n then (n, None) else (0, Some ErrInvalidArgument)
           | Inl e \<Rightarrow> (0, Some ErrInvalidArgument)))"

definition ParseLoserboardArgs :: "string \<Rightarrow> go_int \<times> ArgError option" where
  "ParseLoserboardArgs body = ParseLeaderboardArgs body"

section \<open>Notions the properties are stated with\<close>

text \<open>The karma a guild's store holds for a name: that of its row, 0 without a row.\<close>

definition karmaOf :: "DB \<Rightarrow> string \<Rightarrow> string \<Rightarrow> go_int" where
  "karmaOf db g n = (case entities db (g, n) of None \<Rightarrow> 0 | Some k \<Rightarrow> k)"

text \<open>What the karma table holds for a key whose karma has become \<open>k\<close>: no row at zero.\<close>

definition settle :: "go_int \<Rightarrow> go_int option" where
  "settle k = (if k = 0 then None else Some k)"

text \<open>The zero-balance invariant: no row of the karma table holds a zero.\<close>

definition noZeroRows :: "DB \<Rightarrow> bool" where
  "noZeroRows db \<longleftrightarrow> 0 \<notin> ran (entities db)"

text \<open>
  The text of a reply: one \<open>karmaLine\<close> per (name, karma) entry, the first after the
  separator \<open>sep\<close>, the others after a space.
\<close>

fun linesFrom :: "string \<Rightarrow> (string \<times> go_int) list \<Rightarrow> string" where
  "linesFrom sep [] = []"
| "linesFrom sep (e # es) = karmaLine sep (fst e) (snd e) @ linesFrom '' '' es"

text \<open>
  The names of a range order that \<^verbatim>\<open>ModKarma\<close> mutates: those with a non-zero net
  delta.
\<close>

definition mutated :: "string list \<Rightarrow> Subject list \<Rightarrow> string list" where
  "mutated ks subs = filter (\<lambda>n. netDelta subs n \<noteq> 0) ks"

text \<open>
  Whether the guild's mutations are announced: its configuration row, if it has one,
  does not set NoAnnounce.
\<close>

definition announced :: "DB \<Rightarrow> string \<Rightarrow> bool" where
  "announced db g \<longleftrightarrow> configs db g \<noteq> Some True"

text \<open>
  The reply to a karma query as the specification words it: one line for each requested
  name, duplicates included, in the order of mention. For comparison with
  \<^verbatim>\<open>CheckKarma\<close>.
\<close>

definition CheckKarmaPerRequest :: "DB \<Rightarrow> string \<Rightarrow> string \<Rightarrow> Subject list \<Rightarrow> call list" where
  "CheckKarmaPerRequest db g ch subs =
     [ChannelMessageSend ch
        (linesFrom [] (map (\<lambda>s. (resolveName (Name s), karmaOf db g (resolveName (Name s)))) subs))]"

text \<open>
  A text that begins with the prefix followed by a keyword, with a single space or none
  between them.
\<close>

definition commandText :: "string \<Rightarrow> string \<Rightarrow> string \<Rightarrow> bool" where
  "commandText pfx kw text \<longleftrightarrow>
     (\<exists>body. text = pfx @ kw @ body \<or> text = pfx @ '' '' @ kw @ body)"

text \<open>
  A token that \<^verbatim>\<open>strconv.Atoi\<close> reads as a positive integer, and the integer read.
\<close>

definition positiveInt :: "string \<Rightarrow> bool" where
  "positiveInt tok \<longleftrightarrow> (case Atoi tok of Inr n \<Rightarrow> 0 < sint n | Inl e \<Rightarrow> False)"

definition tokenValue :: "string \<Rightarrow> go_int" where
  "tokenValue tok = (case Atoi tok of Inr n \<Rightarrow> n | Inl e \<Rightarrow> 0)"

text \<open>The request events the publisher builds for the board and karma queries.\<close>

definition leaderboardRequest :: "MessageCreate \<Rightarrow> go_int \<Rightarrow> Event" where
  "leaderboardRequest m limit =
     emptyEvent\<lparr>evRequestCheckLeaderboard := Some
       \<lparr>rclReplyTo = \<lparr>replyChannelID = mChannelID m\<rparr>, rclServerID = mGuildID m, rclLimit = limit\<rparr>\<rparr>"

definition loserboardRequest :: "MessageCreate \<Rightarrow> go_int \<Rightarrow> Event" where
  "loserboardRequest m limit =
     emptyEvent\<lparr>evRequestCheckLoserboard := Some
       \<lparr>rcoReplyTo = \<lparr>replyChannelID = mChannelID m\<rparr>, rcoServerID = mGuildID m, rcoLimit = limit\<rparr>\<rparr>"

definition karmaRequest :: "MessageCreate \<Rightarrow> string list \<Rightarrow> Event" where
  "karmaRequest m who =
     emptyEvent\<lparr>evRequestCheckKarma := Some
       \<lparr>rckReplyTo = \<lparr>replyChannelID = mChannelID m\<rparr>, rckServerID = mGuildID m, rckWho = who\<rparr>\<rparr>"

text \<open>The events among the effects of a handler, in order.\<close>

definition published :: "effect list \<Rightarrow> Event list" where
  "published effs = concat (map (\<lambda>x. case x of Publish e \<Rightarrow> [e] | Session c \<Rightarrow> []) effs)"

text \<open>
  The envelope with only the response field that the consumer's \<^verbatim>\<open>switch\<close> selects,
  and the envelopes with no response field at all.
\<close>

definition firstResponse :: "Event \<Rightarrow> Event" where
  "firstResponse e =
     (case evCheckedKarma e of Some r \<Rightarrow> emptyEvent\<lparr>evCheckedKarma := Some r\<rparr> | None \<Rightarrow>
     (case evCheckedLeaderboard e of Some r \<Rightarrow> emptyEvent\<lparr>evCheckedLeaderboard := Some r\<rparr> | None \<Rightarrow>
     (case evCheckedLoserboard e of Some r \<Rightarrow> emptyEvent\<lparr>evCheckedLoserboard := Some r\<rparr> | None \<Rightarrow>
     (case evChangedAnnounce e of Some r \<Rightarrow> emptyEvent\<lparr>evChangedAnnounce := Some r\<rparr> | None \<Rightarrow>
     (case evChangedKarma e of Some r \<Rightarrow> emptyEvent\<lparr>evChangedKarma := Some r\<rparr> | None \<Rightarrow>
      emptyEvent)))))"

definition noResponse :: "Event \<Rightarrow> bool" where
  "noResponse e \<longleftrightarrow>
     evCheckedKarma e = None \<and> evCheckedLeaderboard e = None \<and> evCheckedLoserboard e = None \<and>
     evChangedAnnounce e = None \<and> evChangedKarma e = None"

section \<open>Example data\<close>

definition emptyDB :: DB where
  "emptyDB = \<lparr>entities = Map.empty, configs = Map.empty\<rparr>"

definition alice2 :: "Subject list" where
  "alice2 = [\<lparr>Name = ''alice'', Karma = 2\<rparr>]"

definition dbAliceMinus2 :: DB where
  "dbAliceMinus2 = \<lparr>entities = [(''g'', ''alice'') \<mapsto> - 2], configs = Map.empty\<rparr>"

definition aliceUpDown :: "Subject list" where
  "aliceUpDown = [\<lparr>Name = ''alice'', Karma = 2\<rparr>, \<lparr>Name = ''alice'', Karma = - 2\<rparr>]"

definition aliceBob :: "Subject list" where
  "aliceBob = [\<lparr>Name = ''alice'', Karma = 2\<rparr>, \<lparr>Name = ''bob'', Karma = 1\<rparr>,
               \<lparr>Name = ''@alice'', Karma = - 2\<rparr>]"

definition dbBob3 :: DB where
  "dbBob3 = \<lparr>entities = [(''g'', ''bob'') \<mapsto> 3], configs = [''g'' \<mapsto> True]\<rparr>"

definition aliceTwice :: "Subject list" where
  "aliceTwice = [\<lparr>Name = ''alice'', Karma = 0\<rparr>, \<lparr>Name = ''@alice'', Karma = 0\<rparr>]"

text \<open>
  An instance of package \<^verbatim>\<open>popple\<close> for the examples: the router and the board parsers
  modelled above, a karma parser that fails on an empty body, and stand-ins for the
  other two parsers.
\<close>

definition samplePopple :: Popple where
  "samplePopple =
     \<lparr>route = Route,
      parseAnnounceArgs = (\<lambda>body. (False, Some ErrMissingArgument)),
      parseBumpKarmaArgs = (\<lambda>body. (Map.empty, None)),
      parseKarmaArgs = (\<lambda>body. if Fields body = [] then ([], Some ErrMissingArgument)
                                 else (Fields body, None)),
      parseLeaderboardArgs = ParseLeaderboardArgs,
      parseLoserboardArgs = ParseLoserboardArgs\<rparr>"

definition sampleMessage :: "string \<Rightarrow> MessageCreate" where
  "sampleMessage content =
     \<lparr>mID = ''m1'', mChannelID = ''c'', mGuildID = ''g'', mAuthorID = ''u1'', mContent = content\<rparr>"

text \<open>A board body of a no-break space (U+00A0, two bytes in UTF-8) and the digit 5.\<close>

definition nbspFive :: string where
  "nbspFive = CHR 0xC2 # CHR 0xA0 # ''5''"

text \<open>An envelope with two populated fields.\<close>

definition twoFields :: Event where
  "twoFields =
     emptyEvent\<lparr>evCheckedKarma := Some \<lparr>ckReplyTo = \<lparr>replyChannelID = ''c''\<rparr>, ckWho = Map.empty\<rparr>,
                evChangedAnnounce := Some
                  \<lparr>caReactTo = \<lparr>reactChannelID = ''c'', reactMessageID = ''m1''\<rparr>\<rparr>\<rparr>"

section \<open>Properties of the merge\<close>

lemma netDelta_absent: "n \<notin> resolvedNames subs \<Longrightarrow> netDelta subs n = 0"
proof -
  assume "n \<notin> resolvedNames subs"
  then have "filter (\<lambda>s. resolveName (Name s) = n) subs = []"
    by (auto simp: resolvedNames_def filter_empty_conv)
  then show ?thesis by (simp add: netDelta_def)
qed

lemma netDelta_Cons:
  "netDelta (s # subs) n =
     (if resolveName (Name s) = n then Karma s + netDelta subs n else netDelta subs n)"
  by (simp add: netDelta_def)

lemma resolvedNames_Cons:
  "resolvedNames (s # subs) = insert (resolveName (Name s)) (resolvedNames subs)"
  by (simp add: resolvedNames_def)

lemma marshalLoop_lookup:
  "marshalLoop m subs n =
     (if n \<in> resolvedNames subs then Some (lookup0 m n + netDelta subs n) else m n)"
proof (induction subs arbitrary: m)
  case Nil
  show ?case by (simp add: resolvedNames_def)
next
  case (Cons s subs)
  show ?case
    by (simp add: Cons.IH resolvedNames_Cons netDelta_Cons netDelta_absent
          marshalStep_def lookup0_def Let_def add.assoc)
qed

lemma marshalSubjects_lookup:
  "marshalSubjects subs n =
     (if n \<in> resolvedNames subs then Some (netDelta subs n) else None)"
  by (simp add: marshalSubjects_def marshalLoop_lookup lookup0_def)

lemma dom_marshalSubjects: "dom (marshalSubjects subs) = resolvedNames subs"
  by (auto simp: marshalSubjects_lookup dom_def)


section \<open>Properties of the name resolution\<close>

lemma resolveName_at: "resolveName (CHR ''@'' # b) = (if b = [] then ''@'' else b)"
  by (cases b) (simp_all add: resolveName_def)

lemma resolveName_cases:
  "resolveName a =
     (case a of [] \<Rightarrow> [] | c # r \<Rightarrow> if c = CHR ''@'' \<and> r \<noteq> [] then r else c # r)"
  by (cases a) (auto simp: resolveName_def)

lemma resolveName_eq_iff:
  "resolveName a = resolveName b \<longleftrightarrow>
     a = b \<or>
     (a = CHR ''@'' # b \<and> b \<noteq> [] \<and> (length b = 1 \<or> hd b \<noteq> CHR ''@'')) \<or>
     (b = CHR ''@'' # a \<and> a \<noteq> [] \<and> (length a = 1 \<or> hd a \<noteq> CHR ''@''))"
proof (cases a)
  case Nil
  then show ?thesis by (cases b) (auto simp: resolveName_cases)
next
  case ca: (Cons c r)
  show ?thesis
  proof (cases b)
    case Nil
    then show ?thesis by (auto simp: ca resolveName_cases)
  next
    case cb: (Cons d t)
    show ?thesis
      by (cases r; cases t) (auto simp: ca cb resolveName_cases)
  qed
qed

text \<open>
  C10. \<^verbatim>\<open>marshalSubjects\<close> strips a leading \<open>@\<close> only from a name longer than one
  character, and strips one: the name \<open>@\<close> stays \<open>@\<close>, a name \<open>@@x\<close> becomes \<open>@x\<close>.
  Two names are filed under the same key exactly when they are equal or one is the
  other with a single \<open>@\<close> in front, the other being non-empty and either one
  character long or not starting with \<open>@\<close> itself. The keys of the merged map are the
  resolved names of the subjects.
\<close>

theorem C10_at_stripping:
  "resolveName ''@'' = ''@'' \<and>
   resolveName (CHR ''@'' # CHR ''@'' # x) = CHR ''@'' # x \<and>
   (resolveName a = resolveName b \<longleftrightarrow>
      a = b \<or>
      (a = CHR ''@'' # b \<and> b \<noteq> [] \<and> (length b = 1 \<or> hd b \<noteq> CHR ''@'')) \<or>
      (b = CHR ''@'' # a \<and> a \<noteq> [] \<and> (length a = 1 \<or> hd a \<noteq> CHR ''@''))) \<and>
   dom (marshalSubjects subs) = (\<lambda>s. resolveName (Name s)) ` set subs"
  using resolveName_eq_iff [of a b]
  by (simp add: resolveName_at dom_marshalSubjects resolvedNames_def)

theorem C10_witness:
  "resolveName ''@@x'' = ''@x'' \<and> resolveName ''@x'' = ''x'' \<and>
   resolveName ''@@x'' \<noteq> resolveName ''@x'' \<and> resolveName ''@x'' = resolveName ''x'' \<and>
   dom (marshalSubjects [\<lparr>Name = ''@'', Karma = 1\<rparr>, \<lparr>Name = ''@@x'', Karma = 1\<rparr>]) = {''@'', ''@x''}"
  using C10_at_stripping [of "''x''" "''@@x''" "''@x''"
          "[\<lparr>Name = ''@'', Karma = 1\<rparr>, \<lparr>Name = ''@@x'', Karma = 1\<rparr>]"]
        C10_at_stripping [of "''x''" "''@x''" "''x''" "[]"]
  by (auto simp: resolveName_def)

section \<open>Properties of \<^verbatim>\<open>ModKarma\<close>\<close>

lemma modKarmaStep_entities:
  "entities (fst (modKarmaStep g m (db, r, s) n)) =
     (if lookup0 m n = 0 then entities db
      else (entities db)((g, n) := settle (karmaOf db g n + lookup0 m n)))"
  by (auto simp: modKarmaStep_def Let_def dbFirstOrCreate_def dbSave_def dbDelete_def
        karmaOf_def settle_def split: option.split)

lemma modKarmaStep_configs:
  "configs (fst (modKarmaStep g m (db, r, s) n)) = configs db"
  by (auto simp: modKarmaStep_def Let_def dbFirstOrCreate_def dbSave_def dbDelete_def
        split: option.split)

lemma modKarmaLoop_configs:
  "configs (fst (modKarmaLoop g m st ks)) = configs (fst st)"
proof (induction ks arbitrary: st)
  case Nil show ?case by simp
next
  case (Cons k ks)
  obtain db r s where st: "st = (db, r, s)" by (cases st)
  show ?case by (simp add: Cons.IH st modKarmaStep_configs)
qed

lemma modKarmaLoop_entities:
  "distinct ks \<Longrightarrow>
   entities (fst (modKarmaLoop g m (db, r, s) ks)) (g', n) =
     (if g' = g \<and> n \<in> set ks \<and> lookup0 m n \<noteq> 0
      then settle (karmaOf db g n + lookup0 m n) else entities db (g', n))"
proof (induction ks arbitrary: db r s)
  case Nil show ?case by simp
next
  case (Cons k ks)
  obtain db1 r1 s1 where st: "modKarmaStep g m (db, r, s) k = (db1, r1, s1)"
    by (cases "modKarmaStep g m (db, r, s) k")
  have e1: "entities db1 =
     (if lookup0 m k = 0 then entities db
      else (entities db)((g, k) := settle (karmaOf db g k + lookup0 m k)))"
    using modKarmaStep_entities [of g m db r s k] st by simp
  from Cons.prems have d: "distinct ks" and nk: "k \<notin> set ks" by simp_all
  have k1: "\<And>x. x \<in> set ks \<Longrightarrow> karmaOf db1 g x = karmaOf db g x"
    using nk by (auto simp: karmaOf_def e1)
  show ?case
    using Cons.IH [OF d, of db1 r1 s1] nk k1
    by (auto simp: st e1)
qed

lemma karmaLine_nonempty: "karmaLine sep name k \<noteq> []"
  by (simp add: karmaLine_def)

lemma modKarmaStep_zero: "lookup0 m n = 0 \<Longrightarrow> modKarmaStep g m st n = st"
  by (cases st) (simp add: modKarmaStep_def)

lemma modKarmaLoop_filter:
  "modKarmaLoop g m st ks = modKarmaLoop g m st (filter (\<lambda>n. lookup0 m n \<noteq> 0) ks)"
  by (induction ks arbitrary: st) (simp_all add: modKarmaStep_zero)

lemma lookup0_marshalSubjects: "lookup0 (marshalSubjects subs) n = netDelta subs n"
  by (simp add: lookup0_def marshalSubjects_lookup netDelta_absent)

lemma ModKarma_entities_loop:
  "entities (fst (ModKarma ks db g ch subs)) =
     entities (fst (modKarmaLoop g (marshalSubjects subs) (db, [], []) ks))"
  by (auto simp: ModKarma_def Let_def cfgFirstOrCreate_def split: prod.split option.split)

lemma ModKarma_entities:
  assumes "rangeOrder ks (marshalSubjects subs)"
  shows "entities (fst (ModKarma ks db g ch subs)) (g', n) =
     (if g' = g \<and> netDelta subs n \<noteq> 0
      then settle (karmaOf db g n + netDelta subs n) else entities db (g', n))"
proof -
  from assms have d: "distinct ks" and s: "set ks = resolvedNames subs"
    by (simp_all add: rangeOrder_def dom_marshalSubjects)
  have "netDelta subs n \<noteq> 0 \<Longrightarrow> n \<in> set ks"
    using netDelta_absent [of n subs] s by auto
  then show ?thesis
    by (auto simp: ModKarma_entities_loop modKarmaLoop_entities [OF d] lookup0_marshalSubjects)
qed

lemma noZeroRows_step:
  "noZeroRows db \<Longrightarrow> noZeroRows (fst (modKarmaStep g m (db, r, s) n))"
  by (auto simp: noZeroRows_def modKarmaStep_entities settle_def ran_def)

lemma noZeroRows_loop:
  "noZeroRows (fst st) \<Longrightarrow> noZeroRows (fst (modKarmaLoop g m st ks))"
proof (induction ks arbitrary: st)
  case Nil then show ?case by simp
next
  case (Cons k ks)
  obtain db r s where st: "st = (db, r, s)" by (cases st)
  show ?case using Cons.prems by (simp add: st Cons.IH noZeroRows_step)
qed

lemma noZeroRows_ModKarma:
  "noZeroRows db \<Longrightarrow> noZeroRows (fst (ModKarma ks db g ch subs))"
  using noZeroRows_loop [of "(db, [], [])" g "marshalSubjects subs" ks]
  by (simp add: noZeroRows_def ModKarma_entities_loop)

lemma modKarmaStep_reply:
  "fst (snd (modKarmaStep g m (db, r, s) n)) =
     (if lookup0 m n = 0 then r else r @ karmaLine s n (karmaOf db g n + lookup0 m n))"
  by (auto simp: modKarmaStep_def Let_def dbFirstOrCreate_def karmaOf_def split: option.split)

lemma modKarmaStep_sep:
  "snd (snd (modKarmaStep g m (db, r, s) n)) = (if lookup0 m n = 0 then s else '' '')"
  by (auto simp: modKarmaStep_def Let_def split: prod.split)

lemma modKarmaLoop_reply:
  "distinct ks \<Longrightarrow>
   fst (snd (modKarmaLoop g m (db, r, s) ks)) =
     r @ linesFrom s (map (\<lambda>n. (n, karmaOf db g n + lookup0 m n))
                        (filter (\<lambda>n. lookup0 m n \<noteq> 0) ks))"
proof (induction ks arbitrary: db r s)
  case Nil show ?case by simp
next
  case (Cons k ks)
  obtain db1 r1 s1 where st: "modKarmaStep g m (db, r, s) k = (db1, r1, s1)"
    by (cases "modKarmaStep g m (db, r, s) k")
  have e1: "entities db1 =
     (if lookup0 m k = 0 then entities db
      else (entities db)((g, k) := settle (karmaOf db g k + lookup0 m k)))"
    using modKarmaStep_entities [of g m db r s k] st by simp
  have r1: "r1 = (if lookup0 m k = 0 then r else r @ karmaLine s k (karmaOf db g k + lookup0 m k))"
    using modKarmaStep_reply [of g m db r s k] st by simp
  have s1: "s1 = (if lookup0 m k = 0 then s else '' '')"
    using modKarmaStep_sep [of g m db r s k] st by simp
  from Cons.prems have d: "distinct ks" and nk: "k \<notin> set ks" by simp_all
  have k1: "\<And>x. x \<in> set ks \<Longrightarrow> karmaOf db1 g x = karmaOf db g x"
    using nk by (auto simp: karmaOf_def e1)
  have m1: "map (\<lambda>n. (n, karmaOf db1 g n + lookup0 m n)) (filter (\<lambda>n. lookup0 m n \<noteq> 0) ks)
          = map (\<lambda>n. (n, karmaOf db g n + lookup0 m n)) (filter (\<lambda>n. lookup0 m n \<noteq> 0) ks)"
    using k1 by (simp cong: map_cong)
  show ?case
    using Cons.IH [OF d, of db1 r1 s1]
    by (simp add: st m1 r1 s1)
qed

lemma linesFrom_empty: "linesFrom s es = [] \<longleftrightarrow> es = []"
  by (cases es) (simp_all add: karmaLine_nonempty)

lemma ModKarma_calls:
  assumes "distinct ks"
  shows "snd (ModKarma ks db g ch subs) =
     (if mutated ks subs = [] \<or> \<not> announced db g then []
      else [ChannelMessageSend ch
              (linesFrom [] (map (\<lambda>n. (n, karmaOf db g n + netDelta subs n)) (mutated ks subs)))])"
proof -
  obtain db1 r1 s1 where st: "modKarmaLoop g (marshalSubjects subs) (db, [], []) ks = (db1, r1, s1)"
    by (cases "modKarmaLoop g (marshalSubjects subs) (db, [], []) ks")
  have r1: "r1 = linesFrom [] (map (\<lambda>n. (n, karmaOf db g n + netDelta subs n)) (mutated ks subs))"
    using modKarmaLoop_reply [OF assms, of g "marshalSubjects subs" db "[]" "[]"] st
    by (simp add: lookup0_marshalSubjects mutated_def)
  have c1: "configs db1 = configs db"
    using modKarmaLoop_configs [of g "marshalSubjects subs" "(db, [], [])" ks] st by simp
  show ?thesis
    by (auto simp: ModKarma_def Let_def st r1 c1 linesFrom_empty cfgFirstOrCreate_def announced_def
          split: option.split)
qed

lemma ModKarma_mutated:
  "ModKarma ks db g ch subs = ModKarma (mutated ks subs) db g ch subs"
proof -
  have "modKarmaLoop g (marshalSubjects subs) (db, [], []) ks =
        modKarmaLoop g (marshalSubjects subs) (db, [], []) (mutated ks subs)"
    using modKarmaLoop_filter [of g "marshalSubjects subs" "(db, [], [])" ks]
    by (simp add: mutated_def lookup0_marshalSubjects)
  then show ?thesis by (simp add: ModKarma_def)
qed

lemma ModKarma_nothing_mutated: "mutated ks subs = [] \<Longrightarrow> ModKarma ks db g ch subs = (db, [])"
  using ModKarma_mutated [of ks db g ch subs] by (simp add: ModKarma_def)

subsection \<open>The zero-balance invariant\<close>

lemma rangeOrder_alice2: "rangeOrder [''alice''] (marshalSubjects alice2)"
  by (simp add: rangeOrder_def dom_marshalSubjects resolvedNames_def resolveName_def alice2_def)

lemma noZeroRows_dbAliceMinus2: "noZeroRows dbAliceMinus2"
  by (simp add: noZeroRows_def dbAliceMinus2_def)

lemma netDelta_alice2: "netDelta alice2 ''alice'' = 2"
  by (simp add: netDelta_def alice2_def resolveName_def)

lemma karmaOf_dbAliceMinus2: "karmaOf dbAliceMinus2 ''g'' ''alice'' = - 2"
  by (simp add: karmaOf_def dbAliceMinus2_def)

text \<open>
  C1. The zero-balance ledger invariant. \<^verbatim>\<open>ModKarma\<close>, run on a store with no zero row
  and with any order of the range over the merged subjects, leaves a store with no zero
  row. For every name, the row of the guild afterwards is the row before when the
  name's net delta is zero; otherwise it is deleted when the stored karma plus the
  delta is exactly zero, and holds that sum when it is not.
\<close>

theorem C1_zero_balance:
  assumes "rangeOrder ks (marshalSubjects subs)" and "noZeroRows db"
  shows "noZeroRows (fst (ModKarma ks db g ch subs)) \<and>
         entities (fst (ModKarma ks db g ch subs)) (g, n) =
           (if netDelta subs n = 0 then entities db (g, n)
            else if karmaOf db g n + netDelta subs n = 0 then None
            else Some (karmaOf db g n + netDelta subs n))"
  using assms by (simp add: noZeroRows_ModKarma ModKarma_entities settle_def)

theorem C1_witness:
  "rangeOrder [''alice''] (marshalSubjects alice2) \<and> noZeroRows dbAliceMinus2 \<and>
   noZeroRows (fst (ModKarma [''alice''] dbAliceMinus2 ''g'' ''c'' alice2)) \<and>
   entities (fst (ModKarma [''alice''] dbAliceMinus2 ''g'' ''c'' alice2)) (''g'', ''alice'') = None"
  using C1_zero_balance [OF rangeOrder_alice2 noZeroRows_dbAliceMinus2, of "''g''" "''c''" "''alice''"] rangeOrder_alice2 noZeroRows_dbAliceMinus2
  by (simp add: netDelta_alice2 karmaOf_dbAliceMinus2)

subsection \<open>Merged subjects and dropped net-zero names\<close>

lemma rangeOrder_aliceBob: "rangeOrder [''bob'', ''alice''] (marshalSubjects aliceBob)"
  by (auto simp: rangeOrder_def dom_marshalSubjects resolvedNames_def resolveName_def aliceBob_def)

lemma netDelta_aliceBob: "netDelta aliceBob ''alice'' = 0" "netDelta aliceBob ''bob'' = 1"
  by (simp_all add: netDelta_def aliceBob_def resolveName_def)

text \<open>
  C3. The occurrences of a resolved name are summed into one net delta in the map that
  \<^verbatim>\<open>ModKarma\<close> ranges over. A name is mutated exactly when its net delta is not zero:
  \<^verbatim>\<open>ModKarma\<close> does what it would do if the names of net delta zero were not in the map,
  the row of such a name is left as it was, and the reply, when one is sent, has the
  lines of the mutated names only. With the subjects (alice, +2), (alice, -2) the store
  is unchanged and nothing is sent.
\<close>

theorem C3_merge_and_drop:
  assumes "rangeOrder ks (marshalSubjects subs)"
  shows "marshalSubjects subs n = (if n \<in> resolvedNames subs then Some (netDelta subs n) else None) \<and>
         (n \<in> set (mutated ks subs) \<longleftrightarrow> netDelta subs n \<noteq> 0) \<and>
         ModKarma ks db g ch subs = ModKarma (mutated ks subs) db g ch subs \<and>
         (if netDelta subs n = 0
          then entities (fst (ModKarma ks db g ch subs)) (g', n) = entities db (g', n)
          else n \<in> set ks) \<and>
         snd (ModKarma ks db g ch subs) =
           (if mutated ks subs = [] \<or> \<not> announced db g then []
            else [ChannelMessageSend ch
                    (linesFrom [] (map (\<lambda>n. (n, karmaOf db g n + netDelta subs n))
                                      (mutated ks subs)))]) \<and>
         ModKarma ks' db g ch aliceUpDown = (db, [])"
proof -
  from assms have d: "distinct ks" and s: "set ks = resolvedNames subs"
    by (simp_all add: rangeOrder_def dom_marshalSubjects)
  have in_ks: "netDelta subs n \<noteq> 0 \<Longrightarrow> n \<in> set ks"
    using netDelta_absent [of n subs] s by auto
  have c1: "marshalSubjects subs n =
              (if n \<in> resolvedNames subs then Some (netDelta subs n) else None)"
    by (rule marshalSubjects_lookup)
  have c2: "n \<in> set (mutated ks subs) \<longleftrightarrow> netDelta subs n \<noteq> 0"
    using in_ks by (auto simp: mutated_def)
  have c3: "ModKarma ks db g ch subs = ModKarma (mutated ks subs) db g ch subs"
    by (rule ModKarma_mutated)
  have c4: "if netDelta subs n = 0
            then entities (fst (ModKarma ks db g ch subs)) (g', n) = entities db (g', n)
            else n \<in> set ks"
    using in_ks by (simp add: ModKarma_entities [OF assms])
  have c5: "snd (ModKarma ks db g ch subs) =
           (if mutated ks subs = [] \<or> \<not> announced db g then []
            else [ChannelMessageSend ch
                    (linesFrom [] (map (\<lambda>n. (n, karmaOf db g n + netDelta subs n))
                                      (mutated ks subs)))])"
    by (rule ModKarma_calls [OF d])
  have "\<And>x. netDelta aliceUpDown x = 0"
    by (simp add: netDelta_def aliceUpDown_def)
  then have "mutated ks' aliceUpDown = []"
    by (simp add: mutated_def)
  then have c6: "ModKarma ks' db g ch aliceUpDown = (db, [])"
    by (rule ModKarma_nothing_mutated)
  show ?thesis
    by (intro conjI) (rule c1, rule c2, rule c3, rule c4, rule c5, rule c6)
qed

theorem C3_witness:
  "rangeOrder [''bob'', ''alice''] (marshalSubjects aliceBob) \<and>
   marshalSubjects aliceBob ''alice'' = Some 0 \<and>
   mutated [''bob'', ''alice''] aliceBob = [''bob''] \<and>
   entities (fst (ModKarma [''bob'', ''alice''] emptyDB ''g'' ''c'' aliceBob)) (''g'', ''alice'') = None \<and>
   snd (ModKarma [''bob'', ''alice''] emptyDB ''g'' ''c'' aliceBob) =
     [ChannelMessageSend ''c'' ''bob has 1 karma.'']"
proof -
  note t = C3_merge_and_drop [OF rangeOrder_aliceBob, of "''alice''" emptyDB "''g''" "''c''" "''g''" "[]"]
  have m: "mutated [''bob'', ''alice''] aliceBob = [''bob'']"
    by (simp add: mutated_def netDelta_aliceBob)
  have r: "''alice'' \<in> resolvedNames aliceBob"
    by (simp add: resolvedNames_def aliceBob_def resolveName_def)
  have a: "announced emptyDB ''g''"
    by (simp add: announced_def emptyDB_def)
  have k: "karmaOf emptyDB ''g'' ''bob'' = 0"
    by (simp add: karmaOf_def emptyDB_def)
  have l: "karmaLine [] ''bob'' 1 = ''bob has 1 karma.''"
    by (simp add: karmaLine_def formatInt_def natDigits.simps digitChar_def)
  have e: "entities emptyDB (''g'', ''alice'') = None"
    by (simp add: emptyDB_def)
  have w1: "marshalSubjects aliceBob ''alice'' = Some 0"
    using t [THEN conjunct1] by (simp add: r netDelta_aliceBob)
  have w3: "entities (fst (ModKarma [''bob'', ''alice''] emptyDB ''g'' ''c'' aliceBob)) (''g'', ''alice'') = None"
    using t [THEN conjunct2, THEN conjunct2, THEN conjunct2, THEN conjunct1]
    by (simp add: netDelta_aliceBob e)
  have w4: "snd (ModKarma [''bob'', ''alice''] emptyDB ''g'' ''c'' aliceBob) =
     [ChannelMessageSend ''c'' ''bob has 1 karma.'']"
    using t [THEN conjunct2, THEN conjunct2, THEN conjunct2, THEN conjunct2, THEN conjunct1]
    by (simp add: m a k l netDelta_aliceBob)
  from rangeOrder_aliceBob w1 m w3 w4 show ?thesis by simp
qed


subsection \<open>Announce gating\<close>

lemma karmaOf_configs: "karmaOf (db\<lparr>configs := c\<rparr>) g n = karmaOf db g n"
  by (simp add: karmaOf_def)

lemma SetAnnounce_on:
  "prefix ''on'' msg \<or> prefix ''yes'' msg \<Longrightarrow>
   fst (SetAnnounce db g ch mid msg) = db\<lparr>configs := (configs db)(g \<mapsto> False)\<rparr> \<and>
   snd (SetAnnounce db g ch mid msg) = [MessageReactionAdd ch mid ThumbsUp]"
  by (auto simp: SetAnnounce_def cfgFirstOrCreate_def cfgSave_def split: option.split)

lemma off_not_on:
  "prefix ''off'' msg \<or> prefix ''no'' msg \<Longrightarrow> \<not> (prefix ''on'' msg \<or> prefix ''yes'' msg)"
  by (auto simp: prefix_def)

lemma SetAnnounce_off:
  assumes "prefix ''off'' msg \<or> prefix ''no'' msg"
  shows "fst (SetAnnounce db g ch mid msg) = db\<lparr>configs := (configs db)(g \<mapsto> True)\<rparr> \<and>
         snd (SetAnnounce db g ch mid msg) = [MessageReactionAdd ch mid ThumbsUp]"
  using assms off_not_on [OF assms]
  by (auto simp: SetAnnounce_def cfgFirstOrCreate_def cfgSave_def split: option.split)

lemma ModKarma_entities_cfg:
  assumes "rangeOrder ks (marshalSubjects subs)"
  shows "entities (fst (ModKarma ks (db\<lparr>configs := c\<rparr>) g ch subs)) =
         entities (fst (ModKarma ks db g ch subs))"
proof (rule ext)
  fix x :: "string \<times> string"
  obtain g' n where x: "x = (g', n)" by (cases x)
  show "entities (fst (ModKarma ks (db\<lparr>configs := c\<rparr>) g ch subs)) x =
        entities (fst (ModKarma ks db g ch subs)) x"
    by (simp add: x ModKarma_entities [OF assms] karmaOf_configs)
qed

lemma ModKarma_calls_cfg:
  assumes "distinct ks"
  shows "snd (ModKarma ks (db\<lparr>configs := (configs db)(g \<mapsto> b)\<rparr>) g ch subs) =
     (if mutated ks subs = [] \<or> b then []
      else [ChannelMessageSend ch
              (linesFrom [] (map (\<lambda>n. (n, karmaOf db g n + netDelta subs n)) (mutated ks subs)))])"
  by (simp add: ModKarma_calls [OF assms] announced_def karmaOf_configs)

lemma consume_ChangedKarma:
  "consumeEvent (emptyEvent\<lparr>evChangedKarma := Some rsp\<rparr>) =
     (if chAnnounce rsp
      then Handled [ChannelMessageSend (replyChannelID (chReplyTo rsp)) (templateLevels (chWho rsp))]
      else Handled [])"
  by (simp add: consumeEvent_def emptyEvent_def)

text \<open>
  C4. Announce gating. \<^verbatim>\<open>SetAnnounce\<close> stores NoAnnounce as the negation of the setting
  it read: true after a message that begins with \<open>off\<close> or \<open>no\<close>, false after one that
  begins with \<open>on\<close> or \<open>yes\<close>. After the former, a \<^verbatim>\<open>ModKarma\<close> with a non-zero net
  delta sends nothing and still leaves the karma table it would leave in any
  configuration, the row of the name holding the new sum or deleted at zero; after the
  latter, the same \<^verbatim>\<open>ModKarma\<close> sends the reply with the lines of the mutated names. The
  consumer sends nothing for a \<open>ChangedKarma\<close> response whose Announce is false and the
  levels text for one whose Announce is true.
\<close>

theorem C4_announce_gating:
  assumes "rangeOrder ks (marshalSubjects subs)" and "netDelta subs n \<noteq> 0"
    and "prefix ''off'' moff \<or> prefix ''no'' moff"
    and "prefix ''on'' mon \<or> prefix ''yes'' mon"
  shows "configs (fst (SetAnnounce db g ch mid moff)) g = Some True \<and>
         configs (fst (SetAnnounce db g ch mid mon)) g = Some False \<and>
         snd (ModKarma ks (fst (SetAnnounce db g ch mid moff)) g ch subs) = [] \<and>
         entities (fst (ModKarma ks (fst (SetAnnounce db g ch mid moff)) g ch subs)) =
           entities (fst (ModKarma ks db g ch subs)) \<and>
         entities (fst (ModKarma ks (fst (SetAnnounce db g ch mid moff)) g ch subs)) (g, n) =
           settle (karmaOf db g n + netDelta subs n) \<and>
         mutated ks subs \<noteq> [] \<and>
         snd (ModKarma ks (fst (SetAnnounce db g ch mid mon)) g ch subs) =
           [ChannelMessageSend ch
              (linesFrom [] (map (\<lambda>n. (n, karmaOf db g n + netDelta subs n)) (mutated ks subs)))] \<and>
         entities (fst (ModKarma ks (fst (SetAnnounce db g ch mid mon)) g ch subs)) =
           entities (fst (ModKarma ks db g ch subs)) \<and>
         consumeEvent (emptyEvent\<lparr>evChangedKarma := Some rsp\<rparr>) =
           (if chAnnounce rsp
            then Handled [ChannelMessageSend (replyChannelID (chReplyTo rsp))
                            (templateLevels (chWho rsp))]
            else Handled [])"
proof -
  from assms(1) have d: "distinct ks" and s: "set ks = resolvedNames subs"
    by (simp_all add: rangeOrder_def dom_marshalSubjects)
  have "n \<in> set ks" using netDelta_absent [of n subs] s assms(2) by auto
  then have m: "mutated ks subs \<noteq> []"
    using assms(2) by (auto simp: mutated_def filter_empty_conv)
  note off = SetAnnounce_off [OF assms(3), of db g ch mid, THEN conjunct1]
  note on = SetAnnounce_on [OF assms(4), of db g ch mid, THEN conjunct1]
  have c1: "configs (fst (SetAnnounce db g ch mid moff)) g = Some True"
    by (simp add: off)
  have c2: "configs (fst (SetAnnounce db g ch mid mon)) g = Some False"
    by (simp add: on)
  have c3: "snd (ModKarma ks (fst (SetAnnounce db g ch mid moff)) g ch subs) = []"
    by (simp add: off ModKarma_calls_cfg [OF d])
  have c4: "entities (fst (ModKarma ks (fst (SetAnnounce db g ch mid moff)) g ch subs)) =
           entities (fst (ModKarma ks db g ch subs))"
    by (simp add: off ModKarma_entities_cfg [OF assms(1)])
  have c5: "entities (fst (ModKarma ks (fst (SetAnnounce db g ch mid moff)) g ch subs)) (g, n) =
           settle (karmaOf db g n + netDelta subs n)"
    using assms(2) by (simp add: c4 ModKarma_entities [OF assms(1)])
  have c6: "snd (ModKarma ks (fst (SetAnnounce db g ch mid mon)) g ch subs) =
           [ChannelMessageSend ch
              (linesFrom [] (map (\<lambda>n. (n, karmaOf db g n + netDelta subs n)) (mutated ks subs)))]"
    using m by (simp add: on ModKarma_calls_cfg [OF d])
  have c7: "entities (fst (ModKarma ks (fst (SetAnnounce db g ch mid mon)) g ch subs)) =
           entities (fst (ModKarma ks db g ch subs))"
    by (simp add: on ModKarma_entities_cfg [OF assms(1)])
  show ?thesis
    by (intro conjI) (rule c1, rule c2, rule c3, rule c4, rule c5, rule m, rule c6, rule c7,
        rule consume_ChangedKarma)
qed

theorem C4_witness:
  "rangeOrder [''alice''] (marshalSubjects alice2) \<and> netDelta alice2 ''alice'' = 2 \<and>
   configs (fst (SetAnnounce emptyDB ''g'' ''c'' ''m'' ''off'')) ''g'' = Some True \<and>
   snd (ModKarma [''alice''] (fst (SetAnnounce emptyDB ''g'' ''c'' ''m'' ''off'')) ''g'' ''c'' alice2) = [] \<and>
   entities (fst (ModKarma [''alice''] (fst (SetAnnounce emptyDB ''g'' ''c'' ''m'' ''off'')) ''g'' ''c'' alice2))
     (''g'', ''alice'') = Some 2 \<and>
   snd (ModKarma [''alice''] (fst (SetAnnounce emptyDB ''g'' ''c'' ''m'' ''on'')) ''g'' ''c'' alice2) =
     [ChannelMessageSend ''c'' ''alice has 2 karma.'']"
proof -
  have nd: "netDelta alice2 ''alice'' \<noteq> 0" by (simp add: netDelta_alice2)
  have off: "prefix ''off'' ''off'' \<or> prefix ''no'' ''off''" by simp
  have on: "prefix ''on'' ''on'' \<or> prefix ''yes'' ''on''" by simp
  have k: "karmaOf emptyDB ''g'' ''alice'' = 0" by (simp add: karmaOf_def emptyDB_def)
  have mu: "mutated [''alice''] alice2 = [''alice'']" by (simp add: mutated_def netDelta_alice2)
  have l: "karmaLine [] ''alice'' 2 = ''alice has 2 karma.''"
    by (simp add: karmaLine_def formatInt_def natDigits.simps digitChar_def)
  note t = C4_announce_gating [OF rangeOrder_alice2 nd off on, of emptyDB "''g''" "''c''" "''m''"]
  have w1: "configs (fst (SetAnnounce emptyDB ''g'' ''c'' ''m'' ''off'')) ''g'' = Some True"
    using t [THEN conjunct1] .
  have w2: "snd (ModKarma [''alice''] (fst (SetAnnounce emptyDB ''g'' ''c'' ''m'' ''off'')) ''g'' ''c'' alice2) = []"
    using t [THEN conjunct2, THEN conjunct2, THEN conjunct1] .
  have w3: "entities (fst (ModKarma [''alice''] (fst (SetAnnounce emptyDB ''g'' ''c'' ''m'' ''off'')) ''g'' ''c'' alice2))
     (''g'', ''alice'') = Some 2"
    using t [THEN conjunct2, THEN conjunct2, THEN conjunct2, THEN conjunct2, THEN conjunct1]
    by (simp add: netDelta_alice2 k settle_def)
  have w4: "snd (ModKarma [''alice''] (fst (SetAnnounce emptyDB ''g'' ''c'' ''m'' ''on'')) ''g'' ''c'' alice2) =
     [ChannelMessageSend ''c'' ''alice has 2 karma.'']"
    using t [THEN conjunct2, THEN conjunct2, THEN conjunct2, THEN conjunct2, THEN conjunct2,
             THEN conjunct2, THEN conjunct1]
    by (simp add: netDelta_alice2 k mu l)
  from rangeOrder_alice2 netDelta_alice2 w1 w2 w3 w4 show ?thesis by simp
qed

section \<open>Properties of \<^verbatim>\<open>CheckKarma\<close>\<close>

lemma checkKarmaLoop_result:
  "checkKarmaLoop g (db, r, s) ks =
     (db, r @ linesFrom s (map (\<lambda>n. (n, karmaOf db g n)) ks), if ks = [] then s else '' '')"
proof (induction ks arbitrary: r s)
  case Nil show ?case by simp
next
  case (Cons k ks)
  have "entKarma (dbFirst db g k) = karmaOf db g k"
    by (simp add: dbFirst_def karmaOf_def zeroEntity_def split: option.split)
  then show ?case
    by (simp add: checkKarmaStep_def Let_def Cons.IH)
qed

lemma CheckKarma_result:
  "CheckKarma ks db g ch subs =
     (db, [ChannelMessageSend ch (linesFrom [] (map (\<lambda>n. (n, karmaOf db g n)) ks))])"
  by (simp add: CheckKarma_def checkKarmaLoop_result)

lemma karmaOf_dbBob3: "karmaOf dbBob3 ''g'' ''bob'' = 3" "karmaOf dbBob3 ''g'' ''alice'' = 0"
  by (simp_all add: karmaOf_def dbBob3_def)

lemma karmaLine_examples:
  "karmaLine [] ''bob'' 3 = ''bob has 3 karma.''"
  "karmaLine '' '' ''alice'' 0 = '' alice has 0 karma.''"
  "karmaLine [] ''alice'' 0 = ''alice has 0 karma.''"
  "karmaLine [] ''bob'' 1 = ''bob has 1 karma.''"
  by (simp_all add: karmaLine_def formatInt_def natDigits.simps digitChar_def)

text \<open>
  C5. \<^verbatim>\<open>CheckKarma\<close> is a pure read. For every order of the range over the merged
  subjects, the store it returns is the store it was given; it sends one message,
  whatever the configuration table holds, with one line for each name of the range,
  which are the resolved names requested; the karma of a line is that of the name's
  row, and 0 when the guild has no row for the name.
\<close>

theorem C5_CheckKarma_pure_read:
  assumes "rangeOrder ks (marshalSubjects subs)"
  shows "fst (CheckKarma ks db g ch subs) = db \<and>
         snd (CheckKarma ks db g ch subs) =
           [ChannelMessageSend ch (linesFrom [] (map (\<lambda>n. (n, karmaOf db g n)) ks))] \<and>
         set ks = resolvedNames subs \<and>
         karmaOf db g n = (case entities db (g, n) of None \<Rightarrow> 0 | Some k \<Rightarrow> k) \<and>
         snd (CheckKarma ks (db\<lparr>configs := c\<rparr>) g ch subs) = snd (CheckKarma ks db g ch subs)"
  using assms
  by (simp add: CheckKarma_result karmaOf_configs rangeOrder_def dom_marshalSubjects karmaOf_def)

theorem C5_witness:
  "rangeOrder [''bob'', ''alice''] (marshalSubjects aliceBob) \<and>
   fst (CheckKarma [''bob'', ''alice''] dbBob3 ''g'' ''c'' aliceBob) = dbBob3 \<and>
   snd (CheckKarma [''bob'', ''alice''] dbBob3 ''g'' ''c'' aliceBob) =
     [ChannelMessageSend ''c'' ''bob has 3 karma. alice has 0 karma.'']"
  using C5_CheckKarma_pure_read [OF rangeOrder_aliceBob, of dbBob3 "''g''" "''c''" "''alice''" "Map.empty"]
    rangeOrder_aliceBob
  by (simp add: karmaOf_dbBob3 karmaLine_examples)

lemma distinct_singleton: "distinct ks \<Longrightarrow> set ks = {a} \<Longrightarrow> ks = [a]"
proof (cases ks)
  case Nil
  assume "set ks = {a}" with Nil show ?thesis by simp
next
  case (Cons k ks')
  assume d: "distinct ks" and s: "set ks = {a}"
  from s Cons have k: "k = a" by auto
  from d s Cons k have "a \<notin> set ks'" and "set ks' \<subseteq> {a}" by auto
  then have "ks' = []" by (cases ks') auto
  with Cons k show ?thesis by simp
qed

lemma rangeOrder_aliceTwice: "rangeOrder ks (marshalSubjects aliceTwice) \<longleftrightarrow> ks = [''alice'']"
proof -
  have r: "resolvedNames aliceTwice = {''alice''}"
    by (simp add: resolvedNames_def aliceTwice_def resolveName_def)
  show ?thesis
    by (auto simp: rangeOrder_def dom_marshalSubjects r dest: distinct_singleton)
qed

text \<open>
  C6, as stated, fails. The claim: the names of a karma query are not merged, each
  requested name yields its own line, in the order of mention
  (\<open>CheckKarmaPerRequest\<close>). For the request of \<open>alice\<close> and \<open>@alice\<close>, no order of the
  range makes \<^verbatim>\<open>CheckKarma\<close> send that reply: it sends one line for the two names.
\<close>

theorem C6_counterexample:
  "\<not> (\<exists>ks. rangeOrder ks (marshalSubjects aliceTwice) \<and>
          snd (CheckKarma ks emptyDB ''g'' ''c'' aliceTwice) =
            CheckKarmaPerRequest emptyDB ''g'' ''c'' aliceTwice)"
proof -
  have k: "karmaOf emptyDB ''g'' ''alice'' = 0"
    by (simp add: karmaOf_def emptyDB_def)
  have "snd (CheckKarma [''alice''] emptyDB ''g'' ''c'' aliceTwice) \<noteq>
          CheckKarmaPerRequest emptyDB ''g'' ''c'' aliceTwice"
    by (simp add: CheckKarma_result CheckKarmaPerRequest_def aliceTwice_def resolveName_def k
          karmaLine_examples)
  then show ?thesis by (auto simp: rangeOrder_aliceTwice)
qed

text \<open>
  C6, amended. \<^verbatim>\<open>CheckKarma\<close> merges the names of a query: the names of its reply are
  distinct, they are the resolved names requested, and the reply has one line for each
  of them, in the order of the range over the map. That order is not fixed by the
  request: the reverse of a range order is a range order too.
\<close>

theorem C6_merged_names:
  assumes "rangeOrder ks (marshalSubjects subs)"
  shows "distinct ks \<and> set ks = resolvedNames subs \<and>
         snd (CheckKarma ks db g ch subs) =
           [ChannelMessageSend ch (linesFrom [] (map (\<lambda>n. (n, karmaOf db g n)) ks))] \<and>
         rangeOrder (rev ks) (marshalSubjects subs)"
  using assms
  by (simp add: CheckKarma_result rangeOrder_def dom_marshalSubjects)

theorem C6_witness:
  "rangeOrder [''alice''] (marshalSubjects aliceTwice) \<and>
   resolvedNames aliceTwice = {''alice''} \<and>
   snd (CheckKarma [''alice''] emptyDB ''g'' ''c'' aliceTwice) =
     [ChannelMessageSend ''c'' ''alice has 0 karma.'']"
proof -
  have ro: "rangeOrder [''alice''] (marshalSubjects aliceTwice)"
    by (simp add: rangeOrder_aliceTwice)
  have k: "karmaOf emptyDB ''g'' ''alice'' = 0"
    by (simp add: karmaOf_def emptyDB_def)
  show ?thesis
    using C6_merged_names [OF ro, of emptyDB "''g''" "''c''"] ro
    by (auto simp: k karmaLine_examples)
qed

section \<open>Properties of the router\<close>

lemma commandText_iff:
  "commandText pfx kw text \<longleftrightarrow>
     prefix pfx text \<and>
     (prefix kw (drop (length pfx) text) \<or> prefix ('' '' @ kw) (drop (length pfx) text))"
proof
  assume "commandText pfx kw text"
  then obtain body where "text = pfx @ kw @ body \<or> text = pfx @ '' '' @ kw @ body"
    by (auto simp: commandText_def)
  then show "prefix pfx text \<and>
     (prefix kw (drop (length pfx) text) \<or> prefix ('' '' @ kw) (drop (length pfx) text))"
    by auto
next
  assume a: "prefix pfx text \<and>
     (prefix kw (drop (length pfx) text) \<or> prefix ('' '' @ kw) (drop (length pfx) text))"
  then obtain rest where t: "text = pfx @ rest" by (auto simp: prefix_def)
  with a have "prefix kw rest \<or> prefix ('' '' @ kw) rest" by simp
  then obtain body where "rest = kw @ body \<or> rest = '' '' @ kw @ body"
    by (auto simp: prefix_def)
  with t show "commandText pfx kw text" by (auto simp: commandText_def)
qed

lemma prefix_cmd:
  "kw \<noteq> [] \<Longrightarrow> hd kw \<noteq> CHR '' '' \<Longrightarrow>
   prefix kw (if prefix '' '' rest then drop 1 rest else rest) \<longleftrightarrow>
     prefix kw rest \<or> prefix ('' '' @ kw) rest"
  by (cases rest; cases kw) auto

lemma Route_kind:
  "fst (Route pfx text) =
     (if commandText pfx ''announce'' text then AnnounceHandler
      else if commandText pfx ''karma'' text then KarmaHandler
      else if commandText pfx ''top'' text then LeaderboardHandler
      else if commandText pfx ''bot'' text then LoserboardHandler
      else BumpKarmaHandler)"
proof -
  let ?rest = "drop (length pfx) text"
  let ?cmd = "if prefix '' '' ?rest then drop 1 ?rest else ?rest"
  have a: "prefix ''announce'' ?cmd \<longleftrightarrow> prefix ''announce'' ?rest \<or> prefix ('' '' @ ''announce'') ?rest"
    by (rule prefix_cmd) simp_all
  have k: "prefix ''karma'' ?cmd \<longleftrightarrow> prefix ''karma'' ?rest \<or> prefix ('' '' @ ''karma'') ?rest"
    by (rule prefix_cmd) simp_all
  have t: "prefix ''top'' ?cmd \<longleftrightarrow> prefix ''top'' ?rest \<or> prefix ('' '' @ ''top'') ?rest"
    by (rule prefix_cmd) simp_all
  have b: "prefix ''bot'' ?cmd \<longleftrightarrow> prefix ''bot'' ?rest \<or> prefix ('' '' @ ''bot'') ?rest"
    by (rule prefix_cmd) simp_all
  show ?thesis
    unfolding commandText_iff Route_def Let_def a k t b
    by (simp only: fst_conv if_distrib [of fst] split: if_split) blast
qed

lemma Route_keyword:
  "Route pfx (pfx @ ''announce'' @ body) = (AnnounceHandler, body)"
  "Route pfx (pfx @ '' '' @ ''announce'' @ body) = (AnnounceHandler, body)"
  "Route pfx (pfx @ ''karma'' @ body) = (KarmaHandler, body)"
  "Route pfx (pfx @ '' '' @ ''karma'' @ body) = (KarmaHandler, body)"
  "Route pfx (pfx @ ''top'' @ body) = (LeaderboardHandler, body)"
  "Route pfx (pfx @ '' '' @ ''top'' @ body) = (LeaderboardHandler, body)"
  "Route pfx (pfx @ ''bot'' @ body) = (LoserboardHandler, body)"
  "Route pfx (pfx @ '' '' @ ''bot'' @ body) = (LoserboardHandler, body)"
  by (simp_all add: Route_def Let_def)

text \<open>
  C2. Router classification. A text that begins with the prefix followed by
  \<open>announce\<close>, \<open>karma\<close>, \<open>top\<close> or \<open>bot\<close>, with a single space or none in between, is
  routed to the Announce, Karma, Leaderboard or Loserboard handler, with what trails
  the keyword as body. The kind of every text is the kind of the keyword it has after
  the prefix, and BumpKarma when it has none; a text that does not begin with the
  prefix is routed to BumpKarma with the whole text as body.
\<close>

theorem C2_route_classification:
  "Route pfx (pfx @ ''announce'' @ body) = (AnnounceHandler, body) \<and>
   Route pfx (pfx @ '' '' @ ''announce'' @ body) = (AnnounceHandler, body) \<and>
   Route pfx (pfx @ ''karma'' @ body) = (KarmaHandler, body) \<and>
   Route pfx (pfx @ '' '' @ ''karma'' @ body) = (KarmaHandler, body) \<and>
   Route pfx (pfx @ ''top'' @ body) = (LeaderboardHandler, body) \<and>
   Route pfx (pfx @ '' '' @ ''top'' @ body) = (LeaderboardHandler, body) \<and>
   Route pfx (pfx @ ''bot'' @ body) = (LoserboardHandler, body) \<and>
   Route pfx (pfx @ '' '' @ ''bot'' @ body) = (LoserboardHandler, body) \<and>
   fst (Route pfx text) =
     (if commandText pfx ''announce'' text then AnnounceHandler
      else if commandText pfx ''karma'' text then KarmaHandler
      else if commandText pfx ''top'' text then LeaderboardHandler
      else if commandText pfx ''bot'' text then LoserboardHandler
      else BumpKarmaHandler) \<and>
   (if prefix pfx text then True else Route pfx text = (BumpKarmaHandler, text))"
  using Route_kind [of pfx "text"]
  by (simp add: Route_keyword) (simp add: Route_def)

theorem C2_witness:
  "Route ''bull'' ''bull announce'' = (AnnounceHandler, []) \<and>
   Route ''goat'' ''goat karma'' = (KarmaHandler, []) \<and>
   Route ''hare'' ''hare top'' = (LeaderboardHandler, []) \<and>
   Route ''mule'' ''mule bot'' = (LoserboardHandler, []) \<and>
   Route ''newt'' ''wolf seal oxen'' = (BumpKarmaHandler, ''wolf seal oxen'') \<and>
   Route ''@colt'' ''@colt announce on'' = (AnnounceHandler, '' on'')"
proof -
  note a = C2_route_classification [of "''bull''" "[]" "''wolf''"]
  note k = C2_route_classification [of "''goat''" "[]" "''wolf''"]
  note t = C2_route_classification [of "''hare''" "[]" "''wolf''"]
  note b = C2_route_classification [of "''mule''" "[]" "''wolf''"]
  note d = C2_route_classification [of "''newt''" "[]" "''wolf seal oxen''"]
  note c = C2_route_classification [of "''@colt''" "'' on''" "''wolf''"]
  have w1: "Route ''bull'' ''bull announce'' = (AnnounceHandler, [])"
    using a [THEN conjunct2, THEN conjunct1] by simp
  have w2: "Route ''goat'' ''goat karma'' = (KarmaHandler, [])"
    using k [THEN conjunct2, THEN conjunct2, THEN conjunct2, THEN conjunct1] by simp
  have w3: "Route ''hare'' ''hare top'' = (LeaderboardHandler, [])"
    using t [THEN conjunct2, THEN conjunct2, THEN conjunct2, THEN conjunct2, THEN conjunct2,
             THEN conjunct1] by simp
  have w4: "Route ''mule'' ''mule bot'' = (LoserboardHandler, [])"
    using b [THEN conjunct2, THEN conjunct2, THEN conjunct2, THEN conjunct2, THEN conjunct2,
             THEN conjunct2, THEN conjunct2, THEN conjunct1] by simp
  have w5: "Route ''newt'' ''wolf seal oxen'' = (BumpKarmaHandler, ''wolf seal oxen'')"
    using d [THEN conjunct2, THEN conjunct2, THEN conjunct2, THEN conjunct2, THEN conjunct2,
             THEN conjunct2, THEN conjunct2, THEN conjunct2, THEN conjunct2] by simp
  have w6: "Route ''@colt'' ''@colt announce on'' = (AnnounceHandler, '' on'')"
    using c [THEN conjunct2, THEN conjunct1] by simp
  from w1 w2 w3 w4 w5 w6 show ?thesis by simp
qed

section \<open>Properties of the board limit\<close>

lemma boardLimit_cases:
  "boardLimit body =
     (case Fields body of [] \<Rightarrow> 10
      | tok # rest \<Rightarrow> if positiveInt tok then tokenValue tok else 10)"
  by (auto simp: boardLimit_def positiveInt_def tokenValue_def Let_def split: list.split sum.split)

lemma ParseLeaderboardArgs_cases:
  "ParseLeaderboardArgs body =
     (case Fields body of [] \<Rightarrow> (10, None)
      | tok # rest \<Rightarrow> if positiveInt tok then (tokenValue tok, None)
                        else (0, Some ErrInvalidArgument))"
  by (auto simp: ParseLeaderboardArgs_def positiveInt_def tokenValue_def split: list.split sum.split)

lemmas text_eval =
  Fields_def fieldsFrom.simps decodeRune_def isSpace_def RuneError_def Let_def
  TrimSpace_def trimLeft.simps trimRight_def lastIndexNonSpace.simps decodeLastRune_def
  scanBack.simps runeStart_def

lemma Fields_examples:
  "Fields [] = []" "Fields '' -1'' = [''-1'']" "Fields '' 3'' = [''3'']" "Fields '' x'' = [''x'']"
  "Fields (CHR 0xC2 # CHR 0xA0 # ''5'') = [''5'']"
  by (simp_all add: text_eval)

lemma positiveInt_examples:
  "\<not> positiveInt ''-1''" "positiveInt ''3''" "\<not> positiveInt ''x''" "tokenValue ''3'' = 3"
  "positiveInt ''5''" "tokenValue ''5'' = 5"
  by (simp_all add: positiveInt_def tokenValue_def Atoi_def isDigit_def Let_def)

text \<open>
  C7. The limit of a board on the two paths, with the board parsers of the
  specification behind the publisher. Without a first token, \<^verbatim>\<open>board\<close> uses the limit
  10 and the publisher publishes a request with the limit 10. With a first token that
  is a positive integer, both use it. With a first token that is not, the parser fails
  with the invalid-argument error and the publisher sends the usage hint and publishes
  nothing, while \<^verbatim>\<open>board\<close> falls back to the limit 10.
\<close>

theorem C7_board_limit_paths:
  assumes "parseLeaderboardArgs P = ParseLeaderboardArgs"
    and "parseLoserboardArgs P = ParseLoserboardArgs"
  shows "(case Fields body of
            [] \<Rightarrow>
              boardLimit body = 10 \<and>
              onLeaderboard P m body = [Publish (leaderboardRequest m 10)] \<and>
              onLoserboard P m body = [Publish (loserboardRequest m 10)]
          | tok # rest \<Rightarrow>
              if positiveInt tok then
                boardLimit body = tokenValue tok \<and>
                onLeaderboard P m body = [Publish (leaderboardRequest m (tokenValue tok))] \<and>
                onLoserboard P m body = [Publish (loserboardRequest m (tokenValue tok))]
              else
                boardLimit body = 10 \<and>
                snd (ParseLeaderboardArgs body) = Some ErrInvalidArgument \<and>
                onLeaderboard P m body = [Session (ChannelMessageSend (mChannelID m) badLimitText)] \<and>
                onLoserboard P m body = [Session (ChannelMessageSend (mChannelID m) badLimitText)])"
  using assms
  by (simp add: boardLimit_cases onLeaderboard_def onLoserboard_def ParseLoserboardArgs_def
        ParseLeaderboardArgs_cases leaderboardRequest_def loserboardRequest_def
        split: list.split)

theorem C7_witness:
  "boardLimit '' -1'' = 10 \<and>
   onLeaderboard samplePopple (sampleMessage ''@popple top -1'') '' -1'' =
     [Session (ChannelMessageSend ''c'' badLimitText)] \<and>
   boardLimit [] = 10 \<and>
   onLeaderboard samplePopple (sampleMessage ''@popple top'') [] =
     [Publish (leaderboardRequest (sampleMessage ''@popple top'') 10)] \<and>
   boardLimit '' 3'' = 3 \<and>
   onLoserboard samplePopple (sampleMessage ''@popple bot 3'') '' 3'' =
     [Publish (loserboardRequest (sampleMessage ''@popple bot 3'') 3)] \<and>
   boardLimit nbspFive = 5 \<and>
   onLeaderboard samplePopple (sampleMessage (''@popple top'' @ nbspFive)) nbspFive =
     [Publish (leaderboardRequest (sampleMessage (''@popple top'' @ nbspFive)) 5)]"
proof -
  have p1: "parseLeaderboardArgs samplePopple = ParseLeaderboardArgs"
    by (simp add: samplePopple_def)
  have p2: "parseLoserboardArgs samplePopple = ParseLoserboardArgs"
    by (simp add: samplePopple_def)
  note t = C7_board_limit_paths [OF p1 p2]
  have w1: "boardLimit '' -1'' = 10 \<and>
      onLeaderboard samplePopple (sampleMessage ''@popple top -1'') '' -1'' =
        [Session (ChannelMessageSend ''c'' badLimitText)]"
    using t [of "'' -1''" "sampleMessage ''@popple top -1''"]
    by (simp add: Fields_examples positiveInt_examples sampleMessage_def)
  have w2: "boardLimit [] = 10 \<and>
      onLeaderboard samplePopple (sampleMessage ''@popple top'') [] =
        [Publish (leaderboardRequest (sampleMessage ''@popple top'') 10)]"
    using t [of "[]" "sampleMessage ''@popple top''"]
    by (simp add: Fields_examples)
  have w3: "boardLimit '' 3'' = 3 \<and>
      onLoserboard samplePopple (sampleMessage ''@popple bot 3'') '' 3'' =
        [Publish (loserboardRequest (sampleMessage ''@popple bot 3'') 3)]"
    using t [of "'' 3''" "sampleMessage ''@popple bot 3''"]
    by (simp add: Fields_examples positiveInt_examples)
  have f: "Fields nbspFive = [''5'']"
    by (simp add: nbspFive_def Fields_examples)
  have w4: "boardLimit nbspFive = 5 \<and>
      onLeaderboard samplePopple (sampleMessage (''@popple top'' @ nbspFive)) nbspFive =
        [Publish (leaderboardRequest (sampleMessage (''@popple top'' @ nbspFive)) 5)]"
    using t [of nbspFive "sampleMessage (''@popple top'' @ nbspFive)"]
    by (simp add: f positiveInt_examples)
  from w1 w2 w3 w4 show ?thesis by simp
qed

section \<open>Properties of the publisher and the consumer\<close>

lemma published_simps:
  "published [] = []"
  "published (Publish e # effs) = e # published effs"
  "published (Session c # effs) = published effs"
  by (simp_all add: published_def)

lemma announce_error_handled:
  "snd (parseAnnounceArgs P body) = Some err \<Longrightarrow>
   onAnnounce P m body =
     [Session (MessageReactionAdd (mChannelID m) (mID m) QuestionMark),
      Session (ChannelMessageSend (mChannelID m) validAnnounceText)]"
  by (cases err) (auto simp: onAnnounce_def split: prod.split)

lemma board_error_handled:
  "snd (parseLeaderboardArgs P body) = Some ErrInvalidArgument \<Longrightarrow>
   onLeaderboard P m body = [Session (ChannelMessageSend (mChannelID m) badLimitText)]"
  "snd (parseLoserboardArgs P body) = Some ErrInvalidArgument \<Longrightarrow>
   onLoserboard P m body = [Session (ChannelMessageSend (mChannelID m) badLimitText)]"
  by (auto simp: onLeaderboard_def onLoserboard_def split: prod.split)

lemma TrimSpace_karma: "TrimSpace ''@popple karma'' = ''@popple karma''"
  by (simp add: text_eval)

text \<open>
  C8, on the code: the case of the karma handler. When \<^verbatim>\<open>ParseKarmaArgs\<close> returns an
  error and the reaction is added without error, the handler goes on and publishes the
  request, with whatever names the parser returned; the announce and board cases above
  return after their acknowledgement.
\<close>

theorem C8_karma_error_still_published:
  assumes "snd (parseKarmaArgs P body) \<noteq> None"
  shows "onKarma P False m body =
           [Session (MessageReactionAdd (mChannelID m) (mID m) QuestionMark),
            Publish (karmaRequest m (fst (parseKarmaArgs P body)))] \<and>
         published (onKarma P False m body) = [karmaRequest m (fst (parseKarmaArgs P body))]"
proof (cases "parseKarmaArgs P body")
  case (Pair who err)
  with assms have "err \<noteq> None" by simp
  with Pair show ?thesis
    by (simp add: onKarma_def karmaRequest_def published_simps Let_def)
qed

theorem C8_failing_input:
  "messageCreate samplePopple ''bot'' ''popple'' False (sampleMessage ''@popple karma'') =
     [Session (MessageReactionAdd ''c'' ''m1'' QuestionMark),
      Publish (karmaRequest (sampleMessage ''@popple karma'') [])]"
proof -
  have e: "snd (parseKarmaArgs samplePopple []) \<noteq> None"
    by (simp add: samplePopple_def Fields_examples)
  have f: "fst (parseKarmaArgs samplePopple []) = []"
    by (simp add: samplePopple_def Fields_examples)
  have r: "route samplePopple ''@popple'' ''@popple karma'' = (KarmaHandler, [])"
    by (simp add: samplePopple_def Route_def Let_def)
  show ?thesis
    using C8_karma_error_still_published [OF e, of "sampleMessage ''@popple karma''"]
    by (simp add: messageCreate_def sampleMessage_def TrimSpace_karma r f)
qed

lemma consume_firstResponse: "consumeEvent e = consumeEvent (firstResponse e)"
  by (simp add: consumeEvent_def firstResponse_def emptyEvent_def split: option.split)

lemma populated_firstResponse: "populated (firstResponse e) \<le> 1"
  by (simp add: populated_def firstResponse_def emptyEvent_def split: option.split)

lemma consume_Discarded: "consumeEvent e = Discarded \<longleftrightarrow> noResponse e"
  by (auto simp: consumeEvent_def noResponse_def split: option.split)

lemma populated_zero: "populated e = 0 \<Longrightarrow> noResponse e"
  by (auto simp: populated_def noResponse_def split: if_splits)

lemma populated_requests:
  "populated (emptyEvent\<lparr>evRequestChangeAnnounce := Some a\<rparr>) = 1"
  "populated (emptyEvent\<lparr>evRequestBumpKarma := Some b\<rparr>) = 1"
  "populated (emptyEvent\<lparr>evRequestCheckKarma := Some c\<rparr>) = 1"
  "populated (emptyEvent\<lparr>evRequestCheckLeaderboard := Some d\<rparr>) = 1"
  "populated (emptyEvent\<lparr>evRequestCheckLoserboard := Some f\<rparr>) = 1"
  by (simp_all add: populated_def emptyEvent_def)

lemma published_onAnnounce:
  "list_all (\<lambda>e. populated e = 1) (published (onAnnounce P m body))"
  by (simp add: onAnnounce_def published_simps populated_requests split: prod.split)

lemma published_onBumpKarma:
  "list_all (\<lambda>e. populated e = 1) (published (onBumpKarma P m body))"
  by (simp add: onBumpKarma_def published_simps populated_requests split: prod.split)

lemma published_onKarma:
  "list_all (\<lambda>e. populated e = 1) (published (onKarma P reactFails m body))"
  by (simp add: onKarma_def Let_def published_simps populated_requests split: prod.split)

lemma published_onLeaderboard:
  "list_all (\<lambda>e. populated e = 1) (published (onLeaderboard P m body))"
  by (simp add: onLeaderboard_def published_simps populated_requests split: prod.split)

lemma published_onLoserboard:
  "list_all (\<lambda>e. populated e = 1) (published (onLoserboard P m body))"
  by (simp add: onLoserboard_def published_simps populated_requests split: prod.split)

lemma published_one:
  "list_all (\<lambda>e. populated e = 1) (published (messageCreate P selfID username reactFails m))"
  by (simp add: messageCreate_def Let_def published_simps published_onAnnounce
        published_onBumpKarma published_onKarma published_onLeaderboard published_onLoserboard
        del: One_nat_def split: Kind.split prod.split)

text \<open>
  C9, as stated, fails. The claim: the consumer discards an envelope with zero or with
  more than one populated field. The envelope \<open>twoFields\<close> has two populated fields, and
  the consumer sends the message of its \<open>CheckedKarma\<close>.
\<close>

theorem C9_counterexample:
  "populated twoFields = 2 \<and>
   consumeEvent twoFields = Handled [ChannelMessageSend ''c'' []] \<and>
   \<not> (\<forall>e. populated e \<noteq> 1 \<longrightarrow> consumeEvent e = Discarded)"
proof -
  have p: "populated twoFields = 2"
    by (simp add: populated_def twoFields_def emptyEvent_def)
  have c: "consumeEvent twoFields = Handled [ChannelMessageSend ''c'' []]"
    by (simp add: consumeEvent_def twoFields_def emptyEvent_def templateLevels_def)
  have "\<not> (populated twoFields \<noteq> 1 \<longrightarrow> consumeEvent twoFields = Discarded)"
    by (simp add: p c)
  then have "\<not> (\<forall>e. populated e \<noteq> 1 \<longrightarrow> consumeEvent e = Discarded)"
    by blast
  with p c show ?thesis by simp
qed

text \<open>
  C9, amended. Every event the publisher's handler publishes has exactly one populated
  field. The consumer discards an envelope exactly when none of its five response
  fields is populated, so it discards the envelope with no populated field. It does
  not count the fields: what it does with an envelope is what it does with the first
  populated response field alone, in the order CheckedKarma, CheckedLeaderboard,
  CheckedLoserboard, ChangedAnnounce, ChangedKarma.
\<close>

theorem C9_envelope_handling:
  "list_all (\<lambda>e. populated e = 1) (published (messageCreate P selfID username reactFails m)) \<and>
   (consumeEvent e = Discarded \<longleftrightarrow> noResponse e) \<and>
   (if populated e = 0 then consumeEvent e = Discarded else True) \<and>
   consumeEvent e = consumeEvent (firstResponse e) \<and>
   populated (firstResponse e) \<le> 1"
proof -
  have z: "if populated e = 0 then consumeEvent e = Discarded else True"
    using populated_zero [of e] by (simp add: consume_Discarded)
  show ?thesis
    by (intro conjI)
      (rule published_one, rule consume_Discarded, rule z, rule consume_firstResponse,
       rule populated_firstResponse)
qed

theorem C9_witness:
  "published (messageCreate samplePopple ''bot'' ''popple'' False (sampleMessage ''@popple top 3'')) =
     [leaderboardRequest (sampleMessage ''@popple top 3'') 3] \<and>
   populated (leaderboardRequest (sampleMessage ''@popple top 3'') 3) = 1 \<and>
   consumeEvent emptyEvent = Discarded \<and>
   consumeEvent (leaderboardRequest (sampleMessage ''@popple top 3'') 3) = Discarded \<and>
   firstResponse twoFields =
     emptyEvent\<lparr>evCheckedKarma := Some \<lparr>ckReplyTo = \<lparr>replyChannelID = ''c''\<rparr>, ckWho = Map.empty\<rparr>\<rparr> \<and>
   consumeEvent twoFields = consumeEvent (firstResponse twoFields)"
proof -
  have t: "TrimSpace ''@popple top 3'' = ''@popple top 3''"
    by (simp add: text_eval)
  have r: "route samplePopple ''@popple'' ''@popple top 3'' = (LeaderboardHandler, '' 3'')"
    by (simp add: samplePopple_def Route_def Let_def)
  have l: "parseLeaderboardArgs samplePopple '' 3'' = (3, None)"
    by (simp add: samplePopple_def ParseLeaderboardArgs_cases Fields_examples positiveInt_examples)
  have pub: "published (messageCreate samplePopple ''bot'' ''popple'' False
               (sampleMessage ''@popple top 3'')) =
             [leaderboardRequest (sampleMessage ''@popple top 3'') 3]"
    by (simp add: messageCreate_def sampleMessage_def t r onLeaderboard_def l published_def
          leaderboardRequest_def)
  note c9 = C9_envelope_handling [of samplePopple "''bot''" "''popple''" False
              "sampleMessage ''@popple top 3''"]
  have w2: "populated (leaderboardRequest (sampleMessage ''@popple top 3'') 3) = 1"
    using c9 [of emptyEvent, THEN conjunct1] by (simp add: pub)
  have w3: "consumeEvent emptyEvent = Discarded"
    using c9 [of emptyEvent, THEN conjunct2, THEN conjunct1]
    by (simp add: noResponse_def emptyEvent_def)
  have w4: "consumeEvent (leaderboardRequest (sampleMessage ''@popple top 3'') 3) = Discarded"
    using c9 [of "leaderboardRequest (sampleMessage ''@popple top 3'') 3", THEN conjunct2,
              THEN conjunct1]
    by (simp add: noResponse_def leaderboardRequest_def emptyEvent_def)
  have w5: "firstResponse twoFields =
     emptyEvent\<lparr>evCheckedKarma := Some \<lparr>ckReplyTo = \<lparr>replyChannelID = ''c''\<rparr>, ckWho = Map.empty\<rparr>\<rparr>"
    by (simp add: firstResponse_def twoFields_def emptyEvent_def)
  have w6: "consumeEvent twoFields = consumeEvent (firstResponse twoFields)"
    using c9 [of twoFields, THEN conjunct2, THEN conjunct2, THEN conjunct2, THEN conjunct1] .
  from pub w2 w3 w4 w5 w6 show ?thesis by simp
qed

end
